theory Spec2Isabelle
  imports Main "HOL-Library.Sublist"
begin

section \<open>Data model\<close>

text \<open>
  The structs of packages \<^verbatim>\<open>types\<close> and \<^verbatim>\<open>config\<close>, with the fields the two source
  files read and write. \<^verbatim>\<open>types.Image\<close> has the three fields that \<^verbatim>\<open>CreateTypeImage\<close>
  fills; \<^verbatim>\<open>types.Application\<close> has \<^verbatim>\<open>Name\<close>, \<^verbatim>\<open>Namespace\<close> and a struct-valued
  \<^verbatim>\<open>Image\<close> (the target of \<^verbatim>\<open>appCfg.Image = img\<close>); \<^verbatim>\<open>config.Kube\<close> has \<^verbatim>\<open>Config\<close> and
  \<^verbatim>\<open>MasterURL\<close>; \<^verbatim>\<open>config.Tool\<close> has the four fields \<^verbatim>\<open>Setup\<close> assigns.
\<close>

record Image =
  Name :: string
  Repo :: string
  AnnotationCmds :: bool

record Application =
  Name :: string
  Namespace :: string
  Image :: Image

record Kube =
  Config :: string
  MasterURL :: string

text \<open>
  Objects of the client libraries are opaque to this program: each is a reference
  that the program only passes on. A Go pointer is an \<open>option\<close>, \<open>None\<close> being \<^verbatim>\<open>nil\<close>.
\<close>

datatype RestConfig = RestConfigRef nat
datatype Clientset = ClientsetRef nat
datatype ImageV1Client = ImageV1ClientRef nat
datatype ImageStream = ImageStreamObj string
datatype DeploymentConfig = DeploymentConfigRef nat
datatype Pod = PodRef nat

record Tool =
  Application :: Application
  KubeConfig :: Kube
  RestConfig :: "RestConfig option"
  Clientset :: "Clientset option"

text \<open>Go zero values of the structs.\<close>

definition zeroImage :: Image where
  "zeroImage = \<lparr> Image.Name = [], Repo = [], AnnotationCmds = False \<rparr>"

definition zeroApplication :: Application where
  "zeroApplication = \<lparr> Application.Name = [], Namespace = [], Image = zeroImage \<rparr>"

definition zeroKube :: Kube where
  "zeroKube = \<lparr> Config = [], MasterURL = [] \<rparr>"

definition zeroTool :: Tool where
  "zeroTool = \<lparr> Application = zeroApplication, KubeConfig = zeroKube,
                RestConfig = None, Clientset = None \<rparr>"

subsection \<open>Errors, process outcomes and the trace of effects\<close>

text \<open>
  A Go \<^verbatim>\<open>error\<close> carries a message and possibly a wrapped cause
  (\<^verbatim>\<open>errors.Cause\<close> of \<^verbatim>\<open>github.com/pkg/errors\<close> follows the chain to its end).
\<close>

datatype go_error = GoError string | Wrap string go_error

fun Error :: "go_error \<Rightarrow> string" where
  "Error (GoError m) = m"
| "Error (Wrap m e) = m @ '': '' @ Error e"

fun Cause :: "go_error \<Rightarrow> go_error" where
  "Cause (GoError m) = GoError m"
| "Cause (Wrap m e) = Cause e"

datatype panic_value = PanicError go_error | NilPointerDereference

text \<open>
  A call either returns, or ends the process: \<^verbatim>\<open>os.Exit\<close> with a code
  (\<^verbatim>\<open>log.Fatal\<close> and \<^verbatim>\<open>log.Fatalf\<close> of logrus log and then call \<^verbatim>\<open>os.Exit(1)\<close>), or a
  panic that nothing recovers.
\<close>

datatype 'a outcome = Done 'a | Exit nat | Panic panic_value

datatype log_level = Debug | Info | Fatal

text \<open>
  Everything the program does to the outside is an event of the trace: log lines (level,
  format or first argument, remaining arguments), prints, and each call that leaves the
  two source files, with its arguments and, where it returns data, what it returned.
\<close>

datatype event =
    EvLog log_level string "string list"
  | EvPrintln string
  | EvPrintf string "string list"
  | EvImageNewForConfig RestConfig "go_error + ImageV1Client"
  | EvExists string string bool
  | EvParseTemplate string Application string
  | EvUnmarshal string "go_error + ImageStream"
  | EvImageStreamsCreate string ImageStream "go_error + ImageStream"
  | EvParseManifest string
  | EvExecCommandAndReturn "string list" "go_error + string"
  | EvBuildConfigFromFlags string string "go_error + RestConfig"
  | EvKubernetesNewForConfig RestConfig "go_error + Clientset"
  | EvGetNamesByLabel string string string "go_error + string list"
  | EvCreateDefaultImageStreams "RestConfig option" Application
  | EvCreatePVC "Clientset option" Application string
  | EvCreateOrRetrieveDeploymentConfig "RestConfig option" Application string
  | EvCreateServiceTemplate "Clientset option" "DeploymentConfig option" Application
  | EvCreateRouteTemplate "RestConfig option" Application
  | EvWaitAndGetPod "Clientset option" Application "go_error + Pod option"

type_synonym trace = "event list"

type_synonym 'a proc = "trace \<Rightarrow> 'a outcome \<times> trace"

definition ret :: "'a \<Rightarrow> 'a proc" where
  "ret x h = (Done x, h)"

definition bind :: "'a proc \<Rightarrow> ('a \<Rightarrow> 'b proc) \<Rightarrow> 'b proc" where
  "bind m f h =
     (case m h of
        (Done x, h') \<Rightarrow> f x h'
      | (Exit n, h') \<Rightarrow> (Exit n, h')
      | (Panic p, h') \<Rightarrow> (Panic p, h'))"

definition emit :: "event \<Rightarrow> unit proc" where
  "emit e h = (Done (), h @ [e])"

definition os_Exit :: "nat \<Rightarrow> 'a proc" where
  "os_Exit code h = (Exit code, h)"

definition panic :: "panic_value \<Rightarrow> 'a proc" where
  "panic p h = (Panic p, h)"

definition log_Info :: "string \<Rightarrow> string list \<Rightarrow> unit proc" where
  "log_Info m args = emit (EvLog Info m args)"

definition log_Debug :: "string \<Rightarrow> string list \<Rightarrow> unit proc" where
  "log_Debug m args = emit (EvLog Debug m args)"

definition log_Fatal :: "string \<Rightarrow> string list \<Rightarrow> 'a proc" where
  "log_Fatal m args = bind (emit (EvLog Fatal m args)) (\<lambda>_. os_Exit 1)"

text \<open>
  A call that leaves the source files: its answer may depend on everything that
  happened before it (the cluster has state), so it is a function of the trace so far.
\<close>

definition extern :: "(trace \<Rightarrow> 'a) \<Rightarrow> ('a \<Rightarrow> event) \<Rightarrow> 'a proc" where
  "extern f ev h = (let r = f h in (Done r, h @ [ev r]))"

definition extern_step :: "(trace \<Rightarrow> 'a outcome) \<Rightarrow> event \<Rightarrow> 'a proc" where
  "extern_step f ev h = (f h, h @ [ev])"

subsection \<open>The environment\<close>

text \<open>
  The command-line flags, the working directory, and the functions that the two source
  files call but do not define (client libraries, package \<^verbatim>\<open>oc\<close>, the other files of
  package \<^verbatim>\<open>buildpack\<close>) are parameters of the model. The five provisioning operations
  are opaque steps that return or end the process. The two clientset constructors are
  asked only about a config that is not \<^verbatim>\<open>nil\<close>.
\<close>

record world =
  namespace :: string
  appName :: string
  kubeconfig :: string
  os_Getwd :: "go_error + string"
  HomeKubePath :: string
  OdoLabelName :: string
  OdoLabelValue :: string
  image_NewForConfig :: "trace \<Rightarrow> RestConfig \<Rightarrow> go_error + ImageV1Client"
  oc_Exists :: "trace \<Rightarrow> string \<Rightarrow> string \<Rightarrow> bool"
  ParseTemplate :: "string \<Rightarrow> Application \<Rightarrow> string"
  yaml_Unmarshal :: "string \<Rightarrow> go_error + ImageStream"
  ImageStreams_Create :: "trace \<Rightarrow> ImageV1Client \<Rightarrow> string \<Rightarrow> ImageStream \<Rightarrow> go_error + ImageStream"
  manifest_file :: "string \<Rightarrow> string option"
  manifest_decode :: "string \<Rightarrow> go_error + Application"
  oc_ExecCommandAndReturn :: "trace \<Rightarrow> string list \<Rightarrow> go_error + string"
  BuildConfigFromFlags :: "trace \<Rightarrow> string \<Rightarrow> string \<Rightarrow> go_error + RestConfig"
  kubernetes_NewForConfig :: "trace \<Rightarrow> RestConfig \<Rightarrow> go_error + Clientset"
  oc_GetNamesByLabel :: "trace \<Rightarrow> string \<Rightarrow> string \<Rightarrow> string \<Rightarrow> go_error + string list"
  CreateDefaultImageStreams :: "trace \<Rightarrow> RestConfig option \<Rightarrow> Application \<Rightarrow> unit outcome"
  CreatePVC :: "trace \<Rightarrow> Clientset option \<Rightarrow> Application \<Rightarrow> string \<Rightarrow> unit outcome"
  CreateOrRetrieveDeploymentConfig ::
    "trace \<Rightarrow> RestConfig option \<Rightarrow> Application \<Rightarrow> string \<Rightarrow> DeploymentConfig option outcome"
  CreateServiceTemplate ::
    "trace \<Rightarrow> Clientset option \<Rightarrow> DeploymentConfig option \<Rightarrow> Application \<Rightarrow> unit outcome"
  CreateRouteTemplate :: "trace \<Rightarrow> RestConfig option \<Rightarrow> Application \<Rightarrow> unit outcome"
  WaitAndGetPod ::
    "trace \<Rightarrow> Clientset option \<Rightarrow> Application \<Rightarrow> (go_error + Pod option) option"

text \<open>\<^verbatim>\<open>current, _ := os.Getwd()\<close>: the error is dropped; with an error the string is empty.\<close>

definition Getwd_current :: "world \<Rightarrow> string" where
  "Getwd_current w = (case os_Getwd w of Inl e \<Rightarrow> [] | Inr dir \<Rightarrow> dir)"

text \<open>
  \<^verbatim>\<open>path.Base\<close> of the Go standard library: the empty path gives \<^verbatim>\<open>.\<close>, trailing slashes
  are removed, the part after the last slash is kept, and a path of slashes only gives
  \<^verbatim>\<open>/\<close>.
\<close>

definition path_Base :: "string \<Rightarrow> string" where
  "path_Base p =
     (if p = [] then ''.''
      else
        let stripped = rev (dropWhile (\<lambda>c. c = CHR ''/'') (rev p));
            last_elem = rev (takeWhile (\<lambda>c. c \<noteq> CHR ''/'') (rev stripped))
        in if last_elem = [] then ''/'' else last_elem)"

section \<open>Package buildpack: imagestream.go\<close>

text \<open>\<^verbatim>\<open>CreateTypeImage\<close> (lines 48 to 54).\<close>

definition CreateTypeImage :: "string \<Rightarrow> string \<Rightarrow> bool \<Rightarrow> Image" where
  "CreateTypeImage name repo annotationCmd =
     \<lparr> Image.Name = name, Repo = repo, AnnotationCmds = annotationCmd \<rparr>"

text \<open>
  The variables of \<^verbatim>\<open>CreateImageStreamTemplate\<close>: its parameters \<^verbatim>\<open>appConfig\<close> and
  \<^verbatim>\<open>images\<close>, and the local \<^verbatim>\<open>appCfg\<close>. The function is modelled as returning their
  final values, so that what it writes and what it leaves alone can be stated.
\<close>

record locals =
  appConfig :: Application
  images :: "Image list"
  appCfg :: Application

text \<open>
  \<^verbatim>\<open>imageClient.ImageStreams(ns).Create(&img)\<close> (line 40). When \<^verbatim>\<open>NewForConfig\<close> failed,
  \<^verbatim>\<open>imageClient\<close> is \<^verbatim>\<open>nil\<close>, and the request built on it dereferences a nil REST client.
\<close>

definition ImageStreams_Create_call ::
  "world \<Rightarrow> ImageV1Client option \<Rightarrow> string \<Rightarrow> ImageStream \<Rightarrow> (go_error + ImageStream) proc" where
  "ImageStreams_Create_call w imageClient ns obj =
     (case imageClient of
        None \<Rightarrow> panic NilPointerDereference
      | Some c \<Rightarrow> extern (\<lambda>h. ImageStreams_Create w h c ns obj) (EvImageStreamsCreate ns obj))"

text \<open>The body of the \<^verbatim>\<open>for\<close> loop (lines 23 to 44) for one image.\<close>

definition imageStreamBody ::
  "world \<Rightarrow> ImageV1Client option \<Rightarrow> Image \<Rightarrow> locals \<Rightarrow> locals proc" where
  "imageStreamBody w imageClient img vs =
     (let vs1 = vs\<lparr> appCfg := (appCfg vs)\<lparr> Image := img \<rparr> \<rparr> in
      bind (extern (\<lambda>h. oc_Exists w h ''imagestream'' (Image.Name img))
                   (EvExists ''imagestream'' (Image.Name img)))
        (\<lambda>found.
           if found then
             bind (log_Info '''%s' ImageStream already exists, skipping'' [Image.Name img])
               (\<lambda>_. ret vs1)
           else
             bind (extern (\<lambda>h. ParseTemplate w ''imagestream'' (appCfg vs1))
                          (EvParseTemplate ''imagestream'' (appCfg vs1)))
               (\<lambda>b.
                  bind (extern (\<lambda>h. yaml_Unmarshal w b) (EvUnmarshal b))
                    (\<lambda>decoded.
                       case decoded of
                         Inl errYamlParsing \<Rightarrow> panic (PanicError errYamlParsing)
                       | Inr obj \<Rightarrow>
                           bind (ImageStreams_Create_call w imageClient
                                   (Namespace (appConfig vs1)) obj)
                             (\<lambda>created.
                                case created of
                                  Inl errImages \<Rightarrow>
                                    log_Fatal ''Unable to create ImageStream: %s''
                                      [Error errImages]
                                | Inr _ \<Rightarrow> ret vs1)))))"

primrec imageStreamLoop ::
  "world \<Rightarrow> ImageV1Client option \<Rightarrow> Image list \<Rightarrow> locals \<Rightarrow> locals proc" where
  "imageStreamLoop w imageClient [] = (\<lambda>vs. ret vs)"
| "imageStreamLoop w imageClient (img # rest) =
     (\<lambda>vs. bind (imageStreamBody w imageClient img vs) (imageStreamLoop w imageClient rest))"

text \<open>
  \<^verbatim>\<open>imageclientsetv1.NewForConfig(config)\<close> (line 17). The constructor starts by copying
  \<^verbatim>\<open>*config\<close>: called with a \<^verbatim>\<open>nil\<close> config it panics on the nil pointer, before
  it can answer anything. With a config it answers a client or an error.
\<close>

definition image_NewForConfig_call ::
  "world \<Rightarrow> RestConfig option \<Rightarrow> (go_error + ImageV1Client) proc" where
  "image_NewForConfig_call w config =
     (case config of
        None \<Rightarrow> panic NilPointerDereference
      | Some c \<Rightarrow> extern (\<lambda>h. image_NewForConfig w h c) (EvImageNewForConfig c))"

text \<open>
  \<^verbatim>\<open>CreateImageStreamTemplate\<close> (lines 16 to 46). The body of \<^verbatim>\<open>if err != nil\<close> is
  empty: with an error the function goes on, \<^verbatim>\<open>imageClient\<close> being \<^verbatim>\<open>nil\<close>.
\<close>

definition CreateImageStreamTemplate ::
  "world \<Rightarrow> RestConfig option \<Rightarrow> Application \<Rightarrow> Image list \<Rightarrow> locals proc" where
  "CreateImageStreamTemplate w config appConfig0 images0 =
     bind (image_NewForConfig_call w config)
       (\<lambda>r.
          let imageClient = (case r of Inl err \<Rightarrow> None | Inr c \<Rightarrow> Some c);
              vs = \<lparr> appConfig = appConfig0, images = images0, appCfg = appConfig0 \<rparr>
          in imageStreamLoop w imageClient (images vs) vs)"

section \<open>Package cmd\<close>

text \<open>\<^verbatim>\<open>checkError\<close> (lines 114 to 124); \<^verbatim>\<open>None\<close> is the \<^verbatim>\<open>nil\<close> error.\<close>

definition checkError :: "go_error option \<Rightarrow> string \<Rightarrow> string list \<Rightarrow> unit proc" where
  "checkError err context a =
     (case err of
        None \<Rightarrow> ret ()
      | Some e \<Rightarrow>
          bind (log_Debug (''Error:'' @ [CHR 0x0A] @ ''%v'') [Error e])
            (\<lambda>_. bind (if context = [] then emit (EvPrintln (Error (Cause e)))
                        else emit (EvPrintf (context @ [CHR 0x0A]) a))
                    (\<lambda>_. os_Exit 1)))"

text \<open>
  Modelled from the spec: \<^verbatim>\<open>buildpack.ParseManifest\<close> is not among the source files. The
  spec's contract: read a file path; on success return an Application value; when the
  file is absent return a zero-value Application; when it is malformed fail with a parse
  error. The files and the structural decoding are parameters (\<open>manifest_file\<close>,
  \<open>manifest_decode\<close>); failing with the parse error ends the process with that error.
\<close>

definition ParseManifest :: "world \<Rightarrow> string \<Rightarrow> Application proc" where
  "ParseManifest w manifestPath =
     bind (emit (EvParseManifest manifestPath))
       (\<lambda>_. case manifest_file w manifestPath of
               None \<Rightarrow> ret zeroApplication
             | Some source \<Rightarrow>
                 (case manifest_decode w source of
                    Inl parse_error \<Rightarrow> panic (PanicError parse_error)
                  | Inr app \<Rightarrow> ret app))"

text \<open>\<^verbatim>\<open>parseManifest\<close> (lines 165 to 169).\<close>

definition parseManifest :: "world \<Rightarrow> Application proc" where
  "parseManifest w =
     bind (log_Info ''Parse MANIFEST of the project if it exists'' [])
       (\<lambda>_. let current = Getwd_current w in ParseManifest w (current @ ''/MANIFEST''))"

text \<open>\<^verbatim>\<open>getK8Config\<close> (lines 171 to 182).\<close>

definition getK8Config :: "world \<Rightarrow> Kube proc" where
  "getK8Config w =
     bind (log_Info ''Get K8s config file'' [])
       (\<lambda>_. let kubeCfgPath = kubeconfig w;
                 kubeCfg = (if kubeCfgPath = [] then zeroKube\<lparr> Config := HomeKubePath w \<rparr>
                            else zeroKube\<lparr> Config := kubeCfgPath \<rparr>)
             in bind (log_Debug ''Kubeconfig : '' [Config kubeCfg, MasterURL kubeCfg])
                  (\<lambda>_. ret kubeCfg))"

text \<open>\<^verbatim>\<open>createKubeRestconfig\<close> (lines 201 to 208).\<close>

definition createKubeRestconfig :: "world \<Rightarrow> Kube \<Rightarrow> RestConfig option proc" where
  "createKubeRestconfig w kubeCfg =
     bind (log_Info ''Create k8s Rest config client using the developer's machine config file'' [])
       (\<lambda>_. bind (extern (\<lambda>h. BuildConfigFromFlags w h (MasterURL kubeCfg) (Config kubeCfg))
                          (EvBuildConfigFromFlags (MasterURL kubeCfg) (Config kubeCfg)))
               (\<lambda>r. case r of
                       Inl err \<Rightarrow> log_Fatal ''Error building kubeconfig: %s'' [Error err]
                     | Inr kubeRestClient \<Rightarrow> ret (Some kubeRestClient)))"

text \<open>
  \<^verbatim>\<open>kubernetes.NewForConfig(kubeRestClient)\<close> (line 193): like the image clientset's
  constructor it copies \<^verbatim>\<open>*c\<close> first, so a \<^verbatim>\<open>nil\<close> config is a panic.
\<close>

definition kubernetes_NewForConfig_call ::
  "world \<Rightarrow> RestConfig option \<Rightarrow> (go_error + Clientset) proc" where
  "kubernetes_NewForConfig_call w config =
     (case config of
        None \<Rightarrow> panic NilPointerDereference
      | Some c \<Rightarrow> extern (\<lambda>h. kubernetes_NewForConfig w h c) (EvKubernetesNewForConfig c))"

text \<open>\<^verbatim>\<open>createClientSet\<close> (lines 185 to 198); the variadic parameter is a list.\<close>

definition createClientSet ::
  "world \<Rightarrow> Kube \<Rightarrow> RestConfig option list \<Rightarrow> Clientset option proc" where
  "createClientSet w kubeCfg optionalRestCfg =
     bind (if length optionalRestCfg = 1 then ret (optionalRestCfg ! 0)
           else createKubeRestconfig w kubeCfg)
       (\<lambda>kubeRestClient.
          bind (log_Info ''Create k8s Clientset'' [])
            (\<lambda>_. bind (kubernetes_NewForConfig_call w kubeRestClient)
                    (\<lambda>r. case r of
                            Inl errclientset \<Rightarrow>
                              log_Fatal ''Error building kubernetes clientset: %s''
                                [Error errclientset]
                          | Inr clientset \<Rightarrow> ret (Some clientset))))"

text \<open>
  \<^verbatim>\<open>finishSetupAndSetApplicationName\<close> (lines 210 to 258), in three parts: the
  resolution of the name on the branch without a DeploymentConfig (lines 225 to 238),
  the provisioning calls (lines 240 to 256), and the function itself, which returns the
  \<^verbatim>\<open>Tool\<close> that the Go code updates through the pointer \<^verbatim>\<open>setup\<close>.
\<close>

definition setApplicationName :: "Tool \<Rightarrow> string \<Rightarrow> Tool" where
  "setApplicationName setup n =
     setup\<lparr> Application := (Application setup)\<lparr> Application.Name := n \<rparr> \<rparr>"

definition resolveApplicationName :: "world \<Rightarrow> Tool \<Rightarrow> Tool proc" where
  "resolveApplicationName w setup =
     (if length (appName w) > 0 then
        bind (log_Info (''Using explicit application name '%s'' @ [CHR 0x27]) [appName w])
          (\<lambda>_. ret (setApplicationName setup (appName w)))
      else if length (Application.Name (Application setup)) > 0 then
        bind (log_Info ''Using application name '%s' that was set in MANIFEST''
                [Application.Name (Application setup)])
          (\<lambda>_. ret setup)
      else
        let current = Getwd_current w;
            directoryName = path_Base current
        in bind (log_Info
                   ''Using (default) application name '%s' which is the name the project's directory''
                   [directoryName])
             (\<lambda>_. ret (setApplicationName setup directoryName)))"

definition provision :: "world \<Rightarrow> Tool \<Rightarrow> Tool proc" where
  "provision w setup =
     bind (log_Info ''Create ImageStreams for Supervisord and Java S2I Image of SpringBoot'' [])
    (\<lambda>_. bind (extern_step
                 (\<lambda>h. CreateDefaultImageStreams w h (RestConfig setup) (Application setup))
                 (EvCreateDefaultImageStreams (RestConfig setup) (Application setup)))
    (\<lambda>_. bind (log_Info ''Create PVC to store m2 repo'' [])
    (\<lambda>_. bind (extern_step
                 (\<lambda>h. CreatePVC w h (Clientset setup) (Application setup) ''1Gi'')
                 (EvCreatePVC (Clientset setup) (Application setup) ''1Gi''))
    (\<lambda>_. bind (log_Info
                 ''Create or retrieve DeploymentConfig using Supervisord and Java S2I Image of SpringBoot''
                 [])
    (\<lambda>_. bind (extern_step
                 (\<lambda>h. CreateOrRetrieveDeploymentConfig w h (RestConfig setup)
                         (Application setup) [])
                 (EvCreateOrRetrieveDeploymentConfig (RestConfig setup) (Application setup) []))
    (\<lambda>dc. bind (log_Info ''Create Service using Template'' [])
    (\<lambda>_. bind (extern_step
                 (\<lambda>h. CreateServiceTemplate w h (Clientset setup) dc (Application setup))
                 (EvCreateServiceTemplate (Clientset setup) dc (Application setup)))
    (\<lambda>_. bind (log_Info ''Create Route using Template'' [])
    (\<lambda>_. bind (extern_step
                 (\<lambda>h. CreateRouteTemplate w h (RestConfig setup) (Application setup))
                 (EvCreateRouteTemplate (RestConfig setup) (Application setup)))
    (\<lambda>_. ret setup))))))))))"

definition finishSetupAndSetApplicationName :: "world \<Rightarrow> Tool \<Rightarrow> Tool proc" where
  "finishSetupAndSetApplicationName w setup =
     bind (extern (\<lambda>h. oc_GetNamesByLabel w h ''dc'' (OdoLabelName w) (OdoLabelValue w))
                  (EvGetNamesByLabel ''dc'' (OdoLabelName w) (OdoLabelValue w)))
       (\<lambda>r. case r of
               Inl err \<Rightarrow>
                 log_Fatal ''Error retrieving DeploymentConfig labeled %s=%s. Are you logged in?''
                   [OdoLabelName w, OdoLabelValue w]
             | Inr existingDCs \<Rightarrow>
                 if length existingDCs \<noteq> 0 then
                   let dcName = existingDCs ! 0
                   in bind (log_Info
                              (''Using application name '%s' from the existing DeploymentConfig labeled with '%s=%s''
                                 @ [CHR 0x27])
                              [dcName, ''io.openshift.odo'', ''inject-supervisord''])
                        (\<lambda>_. ret (setApplicationName setup dcName))
                 else
                   bind (log_Info ''Setting up the development pod'' [])
                     (\<lambda>_. bind (resolveApplicationName w setup) (provision w)))"

text \<open>\<^verbatim>\<open>Setup\<close> (lines 126 to 150).\<close>

definition Setup :: "world \<Rightarrow> Tool proc" where
  "Setup w =
     bind (parseManifest w)
    (\<lambda>app. let tool1 = zeroTool\<lparr> Application := app \<rparr> in
     bind (getK8Config w)
    (\<lambda>kubeCfg. let tool2 = tool1\<lparr> KubeConfig := kubeCfg \<rparr> in
     bind (extern (\<lambda>h. oc_ExecCommandAndReturn w h [''project'', ''-q'', namespace w])
                  (EvExecCommandAndReturn [''project'', ''-q'', namespace w]))
    (\<lambda>r. case r of
            Inl err \<Rightarrow> log_Fatal (Error err) []
          | Inr currentNs \<Rightarrow>
              bind (log_Info ''Using '%s' namespace'' [currentNs])
             (\<lambda>_. let tool3 = tool2\<lparr> Application := (Application tool2)\<lparr> Namespace := currentNs \<rparr> \<rparr> in
              bind (createKubeRestconfig w (KubeConfig tool3))
             (\<lambda>restConfig. let tool4 = tool3\<lparr> RestConfig := restConfig \<rparr> in
              bind (createClientSet w (KubeConfig tool4) [RestConfig tool4])
             (\<lambda>clientset. let tool5 = tool4\<lparr> Clientset := clientset \<rparr> in
              finishSetupAndSetApplicationName w tool5))))))"

text \<open>
  \<^verbatim>\<open>SetupAndWaitForPod\<close> (lines 152 to 163). \<^verbatim>\<open>buildpack.WaitAndGetPod\<close> blocks on
  a watch without a timeout: it may never return, which is the answer \<open>None\<close> of the
  environment, and then \<^verbatim>\<open>SetupAndWaitForPod\<close> does not return either (\<open>None\<close>).
\<close>

definition SetupAndWaitForPod ::
  "world \<Rightarrow> trace \<Rightarrow> ((Tool \<times> Pod option) outcome \<times> trace) option" where
  "SetupAndWaitForPod w h =
     (case Setup w h of
        (Done setup, h1) \<Rightarrow>
          (let h2 = h1 @ [EvLog Info ''Wait till the dev pod is available'' []] in
           case WaitAndGetPod w h2 (Clientset setup) (Application setup) of
             None \<Rightarrow> None
           | Some r \<Rightarrow>
               (let h3 = h2 @ [EvWaitAndGetPod (Clientset setup) (Application setup) r] in
                case r of
                  Inl err \<Rightarrow> Some (log_Fatal ''Pod watch error: %s'' [Error err] h3)
                | Inr pod \<Rightarrow> Some (Done (setup, pod), h3)))
      | (Exit code, h1) \<Rightarrow> Some (Exit code, h1)
      | (Panic p, h1) \<Rightarrow> Some (Panic p, h1))"

section \<open>Observations on traces\<close>

text \<open>The provisioning operations that a trace shows, in the order they were called.\<close>

datatype step = StepImageStreams | StepPVC | StepDeploymentConfig | StepService | StepRoute

fun step_of :: "event \<Rightarrow> step list" where
  "step_of (EvCreateDefaultImageStreams _ _) = [StepImageStreams]"
| "step_of (EvImageStreamsCreate _ _ _) = [StepImageStreams]"
| "step_of (EvCreatePVC _ _ _) = [StepPVC]"
| "step_of (EvCreateOrRetrieveDeploymentConfig _ _ _) = [StepDeploymentConfig]"
| "step_of (EvCreateServiceTemplate _ _ _) = [StepService]"
| "step_of (EvCreateRouteTemplate _ _) = [StepRoute]"
| "step_of _ = []"

definition provisioning_steps :: "trace \<Rightarrow> step list" where
  "provisioning_steps tr = concat (map step_of tr)"

text \<open>
  In the trace of \<^verbatim>\<open>CreateImageStreamTemplate\<close>: the create requests, the existence
  checks answered "absent", the template renders and the decodes.
\<close>

fun is_create :: "event \<Rightarrow> bool" where
  "is_create (EvImageStreamsCreate _ _ _) = True"
| "is_create _ = False"

fun is_absent :: "event \<Rightarrow> bool" where
  "is_absent (EvExists _ _ found) = (\<not> found)"
| "is_absent _ = False"

fun is_render :: "event \<Rightarrow> bool" where
  "is_render (EvParseTemplate _ _ _) = True"
| "is_render _ = False"

fun is_decode :: "event \<Rightarrow> bool" where
  "is_decode (EvUnmarshal _ _) = True"
| "is_decode _ = False"

text \<open>The names whose existence was checked, and the images handed to the renderer.\<close>

fun checked_name :: "event \<Rightarrow> string list" where
  "checked_name (EvExists _ name _) = [name]"
| "checked_name _ = []"

fun rendered_image :: "event \<Rightarrow> Image list" where
  "rendered_image (EvParseTemplate _ app _) = [Image app]"
| "rendered_image _ = []"

definition rendered_images :: "trace \<Rightarrow> Image list" where
  "rendered_images tr = concat (map rendered_image tr)"

text \<open>The commands run through \<^verbatim>\<open>oc.ExecCommandAndReturn\<close>, with their answers.\<close>

fun exec_result :: "event \<Rightarrow> (string list \<times> (go_error + string)) list" where
  "exec_result (EvExecCommandAndReturn args r) = [(args, r)]"
| "exec_result _ = []"

definition exec_results :: "trace \<Rightarrow> (string list \<times> (go_error + string)) list" where
  "exec_results tr = concat (map exec_result tr)"

text \<open>The Applications handed to the provisioning operations of \<^verbatim>\<open>Setup\<close>.\<close>

fun provisioned_app :: "event \<Rightarrow> Application list" where
  "provisioned_app (EvCreateDefaultImageStreams _ app) = [app]"
| "provisioned_app (EvCreatePVC _ app _) = [app]"
| "provisioned_app (EvCreateOrRetrieveDeploymentConfig _ app _) = [app]"
| "provisioned_app (EvCreateServiceTemplate _ _ app) = [app]"
| "provisioned_app (EvCreateRouteTemplate _ app) = [app]"
| "provisioned_app _ = []"

definition provisioned_apps :: "trace \<Rightarrow> Application list" where
  "provisioned_apps tr = concat (map provisioned_app tr)"

text \<open>What a call appended to the trace it started from.\<close>

definition appended :: "trace \<Rightarrow> 'a outcome \<times> trace \<Rightarrow> trace" where
  "appended h r = drop (length h) (snd r)"

section \<open>A concrete environment\<close>

text \<open>
  A cluster on which every call succeeds, no DeploymentConfig is labelled, and an
  ImageStream exists once a create request for it has been made. The renderer writes
  the image's name, and the decoder wraps the text.
\<close>

fun creates_stream :: "string \<Rightarrow> event \<Rightarrow> bool" where
  "creates_stream name (EvImageStreamsCreate _ (ImageStreamObj n) (Inr _)) = (n = name)"
| "creates_stream name _ = False"

definition demo_world :: world where
  "demo_world =
     \<lparr> namespace = [], appName = [], kubeconfig = [],
       os_Getwd = Inr ''/home/dev/demo'',
       HomeKubePath = ''/home/dev/.kube/config'',
       OdoLabelName = ''io.openshift.odo'',
       OdoLabelValue = ''inject-supervisord'',
       image_NewForConfig = (\<lambda>h c. Inr (ImageV1ClientRef 0)),
       oc_Exists = (\<lambda>h kind name. list_ex (creates_stream name) h),
       ParseTemplate = (\<lambda>tmpl app. Image.Name (Image app)),
       yaml_Unmarshal = (\<lambda>b. Inr (ImageStreamObj b)),
       ImageStreams_Create = (\<lambda>h c ns obj. Inr obj),
       manifest_file = (\<lambda>path. None),
       manifest_decode = (\<lambda>source. Inl (GoError ''yaml: unmarshal error'')),
       oc_ExecCommandAndReturn = (\<lambda>h args. Inr ''myproject''),
       BuildConfigFromFlags = (\<lambda>h url path. Inr (RestConfigRef 0)),
       kubernetes_NewForConfig = (\<lambda>h c. Inr (ClientsetRef 0)),
       oc_GetNamesByLabel = (\<lambda>h kind name v. Inr []),
       CreateDefaultImageStreams = (\<lambda>h c app. Done ()),
       CreatePVC = (\<lambda>h c app size. Done ()),
       CreateOrRetrieveDeploymentConfig = (\<lambda>h c app cmd. Done (Some (DeploymentConfigRef 0))),
       CreateServiceTemplate = (\<lambda>h c dc app. Done ()),
       CreateRouteTemplate = (\<lambda>h c app. Done ()),
       WaitAndGetPod = (\<lambda>h c app. Some (Inr (Some (PodRef 0)))) \<rparr>"

definition demo_manifest :: Application where
  "demo_manifest =
     \<lparr> Application.Name = ''from-manifest'', Namespace = ''manifest-ns'',
       Image = CreateTypeImage ''dev-s2i'' ''quay.io/snowdrop/spring-boot-s2i'' True \<rparr>"

definition demo_images :: "Image list" where
  "demo_images =
     [CreateTypeImage ''dev-s2i'' ''quay.io/snowdrop/spring-boot-s2i'' True,
      CreateTypeImage ''copy-supervisord'' ''quay.io/snowdrop/supervisord'' False]"

text \<open>
  The trace of \<^verbatim>\<open>CreateImageStreamTemplate\<close> on that cluster, started empty, for the
  two images and the manifest's Application.
\<close>

definition demo_trace :: trace where
  "demo_trace =
     [EvImageNewForConfig (RestConfigRef 0) (Inr (ImageV1ClientRef 0)),
      EvExists ''imagestream'' ''dev-s2i'' False,
      EvParseTemplate ''imagestream'' (demo_manifest\<lparr> Image := demo_images ! 0 \<rparr>) ''dev-s2i'',
      EvUnmarshal ''dev-s2i'' (Inr (ImageStreamObj ''dev-s2i'')),
      EvImageStreamsCreate ''manifest-ns'' (ImageStreamObj ''dev-s2i'')
        (Inr (ImageStreamObj ''dev-s2i'')),
      EvExists ''imagestream'' ''copy-supervisord'' False,
      EvParseTemplate ''imagestream'' (demo_manifest\<lparr> Image := demo_images ! 1 \<rparr>)
        ''copy-supervisord'',
      EvUnmarshal ''copy-supervisord'' (Inr (ImageStreamObj ''copy-supervisord'')),
      EvImageStreamsCreate ''manifest-ns'' (ImageStreamObj ''copy-supervisord'')
        (Inr (ImageStreamObj ''copy-supervisord''))]"

text \<open>The same cluster, with a MANIFEST in the working directory.\<close>

definition demo_world_manifest :: world where
  "demo_world_manifest =
     demo_world\<lparr> manifest_file := (\<lambda>path. if path = ''/home/dev/demo/MANIFEST''
                                           then Some ''name: from-manifest'' else None),
                 manifest_decode := (\<lambda>source. Inr demo_manifest) \<rparr>"

section \<open>Properties\<close>

subsection \<open>Laws of sequencing\<close>

lemmas proc_defs = ret_def bind_def emit_def os_Exit_def panic_def log_Info_def
  log_Debug_def log_Fatal_def extern_def extern_step_def Let_def

lemmas obs_defs = provisioning_steps_def exec_results_def provisioned_apps_def
  rendered_images_def appended_def

lemma bind_ret: "bind (ret x) g h = g x h"
  by (simp add: bind_def ret_def)

lemma bind_emit: "bind (emit e) g h = g () (h @ [e])"
  by (simp add: bind_def emit_def)

lemma bind_log_Info: "bind (log_Info m a) g h = g () (h @ [EvLog Info m a])"
  by (simp add: log_Info_def bind_emit)

lemma bind_log_Debug: "bind (log_Debug m a) g h = g () (h @ [EvLog Debug m a])"
  by (simp add: log_Debug_def bind_emit)

lemma bind_extern: "bind (extern f ev) g h = g (f h) (h @ [ev (f h)])"
  by (simp add: bind_def extern_def Let_def)

lemma bind_extern_step:
  "bind (extern_step f ev) g h =
     (case f h of
        Done x \<Rightarrow> g x (h @ [ev])
      | Exit n \<Rightarrow> (Exit n, h @ [ev])
      | Panic p \<Rightarrow> (Panic p, h @ [ev]))"
  by (simp add: bind_def extern_step_def split: outcome.splits)

lemma log_Fatal_result: "log_Fatal m a h = (Exit 1, h @ [EvLog Fatal m a])"
  by (simp add: log_Fatal_def bind_emit os_Exit_def)

lemma bind_log_Fatal: "bind (log_Fatal m a) g h = (Exit 1, h @ [EvLog Fatal m a])"
  by (simp add: bind_def log_Fatal_result)

lemma bind_panic: "bind (panic p) g h = (Panic p, h)"
  by (simp add: bind_def panic_def)

lemma bind_assoc: "bind (bind m f) g = bind m (\<lambda>x. bind (f x) g)"
  by (rule ext) (simp add: bind_def split: prod.splits outcome.splits)

lemma bind_if: "bind (if c then m else m') g = (if c then bind m g else bind m' g)"
  by simp

lemmas bind_simps = bind_ret bind_emit bind_log_Info bind_log_Debug bind_extern
  bind_extern_step log_Fatal_result bind_log_Fatal bind_panic bind_assoc bind_if
  ret_def panic_def os_Exit_def

lemma checkError_nil: "checkError None context a h = (Done (), h)"
  by (simp add: checkError_def ret_def)

lemma checkError_exit: "fst (checkError (Some e) context a h) = Exit 1"
  by (simp add: checkError_def bind_simps)

subsection \<open>The two paths of finishSetupAndSetApplicationName\<close>

lemma finishSetup_reuse:
  assumes "oc_GetNamesByLabel w h ''dc'' (OdoLabelName w) (OdoLabelValue w) = Inr (d # ds)"
  shows "finishSetupAndSetApplicationName w setup h =
           (Done (setApplicationName setup d),
            h @ [EvGetNamesByLabel ''dc'' (OdoLabelName w) (OdoLabelValue w) (Inr (d # ds)),
                 EvLog Info
                   (''Using application name '%s' from the existing DeploymentConfig labeled with '%s=%s''
                      @ [CHR 0x27])
                   [d, ''io.openshift.odo'', ''inject-supervisord'']])"
  using assms by (simp add: finishSetupAndSetApplicationName_def proc_defs)

lemma provision_result:
  "\<exists>tr. snd (provision w setup h) = h @ tr
       \<and> prefix (provisioning_steps tr)
            [StepImageStreams, StepPVC, StepDeploymentConfig, StepService, StepRoute]
       \<and> (\<forall>t. fst (provision w setup h) = Done t \<longrightarrow>
             t = setup \<and> provisioning_steps tr =
               [StepImageStreams, StepPVC, StepDeploymentConfig, StepService, StepRoute])
       \<and> exec_results tr = []
       \<and> set (provisioned_apps tr) = {Application setup}"
  by (auto simp add: provision_def proc_defs obs_defs
      split: outcome.splits prod.splits)

lemma resolveApplicationName_result:
  "\<exists>m. resolveApplicationName w setup h =
         (Done (setApplicationName setup
                  (if appName w \<noteq> [] then appName w
                   else if Application.Name (Application setup) \<noteq> []
                        then Application.Name (Application setup)
                        else path_Base (Getwd_current w))),
          h @ [EvLog Info m
                 [if appName w \<noteq> [] then appName w
                  else if Application.Name (Application setup) \<noteq> []
                       then Application.Name (Application setup)
                       else path_Base (Getwd_current w)]])"
  by (simp add: resolveApplicationName_def proc_defs setApplicationName_def)

lemma finishSetup_provision_path:
  assumes "oc_GetNamesByLabel w h ''dc'' (OdoLabelName w) (OdoLabelValue w) = Inr []"
  shows "\<exists>m. finishSetupAndSetApplicationName w setup h =
           provision w
             (setApplicationName setup
                (if appName w \<noteq> [] then appName w
                 else if Application.Name (Application setup) \<noteq> []
                      then Application.Name (Application setup)
                      else path_Base (Getwd_current w)))
             (h @ [EvGetNamesByLabel ''dc'' (OdoLabelName w) (OdoLabelValue w) (Inr []),
                   EvLog Info ''Setting up the development pod'' [],
                   EvLog Info m
                     [if appName w \<noteq> [] then appName w
                      else if Application.Name (Application setup) \<noteq> []
                           then Application.Name (Application setup)
                           else path_Base (Getwd_current w)]])"
proof -
  define n where "n = (if appName w \<noteq> [] then appName w
                 else if Application.Name (Application setup) \<noteq> []
                      then Application.Name (Application setup)
                      else path_Base (Getwd_current w))"
  define h1 where "h1 = h @ [EvGetNamesByLabel ''dc'' (OdoLabelName w) (OdoLabelValue w) (Inr []),
                EvLog Info ''Setting up the development pod'' []]"
  obtain m where r: "resolveApplicationName w setup h1 =
         (Done (setApplicationName setup n), h1 @ [EvLog Info m [n]])"
    unfolding n_def using resolveApplicationName_result by blast
  have "finishSetupAndSetApplicationName w setup h =
          bind (resolveApplicationName w setup) (provision w) h1"
    using assms
    by (simp add: finishSetupAndSetApplicationName_def bind_extern bind_log_Info h1_def)
  then have "finishSetupAndSetApplicationName w setup h =
          provision w (setApplicationName setup n) (h1 @ [EvLog Info m [n]])"
    using r by (simp add: bind_def)
  then have "finishSetupAndSetApplicationName w setup h =
          provision w (setApplicationName setup n)
            (h @ [EvGetNamesByLabel ''dc'' (OdoLabelName w) (OdoLabelValue w) (Inr []),
                   EvLog Info ''Setting up the development pod'' [],
                   EvLog Info m [n]])"
    by (simp add: h1_def)
  then show ?thesis unfolding n_def by (rule exI)
qed

text \<open>
  C1. On the provision path (the label query returns no DeploymentConfig) the application
  name is the \<^verbatim>\<open>--application\<close> flag when that is non-empty, otherwise the name already
  in the Application (from the manifest) when that is non-empty, otherwise the base name
  of the working directory: every provisioning call receives an Application of that
  name, and when setup completes the returned Tool carries it.
\<close>

theorem C1_application_name_priority:
  assumes "oc_GetNamesByLabel w h ''dc'' (OdoLabelName w) (OdoLabelValue w) = Inr []"
  shows "let n = (if appName w \<noteq> [] then appName w
                  else if Application.Name (Application setup) \<noteq> []
                       then Application.Name (Application setup)
                       else path_Base (Getwd_current w));
             r = finishSetupAndSetApplicationName w setup h
         in set (map Application.Name (provisioned_apps (appended h r))) = {n}
          \<and> (\<forall>t. fst r = Done t \<longrightarrow> Application.Name (Application t) = n)"
proof -
  define n where "n = (if appName w \<noteq> [] then appName w
                 else if Application.Name (Application setup) \<noteq> []
                      then Application.Name (Application setup)
                      else path_Base (Getwd_current w))"
  define pre where "pre = (\<lambda>m. [EvGetNamesByLabel ''dc'' (OdoLabelName w) (OdoLabelValue w) (Inr []),
                   EvLog Info ''Setting up the development pod'' [],
                   EvLog Info m [n]])"
  obtain m where f: "finishSetupAndSetApplicationName w setup h =
      provision w (setApplicationName setup n) (h @ pre m)"
    unfolding n_def pre_def using finishSetup_provision_path [OF assms] by blast
  obtain tr where tr: "snd (provision w (setApplicationName setup n) (h @ pre m)) = (h @ pre m) @ tr"
    and dn: "\<forall>t. fst (provision w (setApplicationName setup n) (h @ pre m)) = Done t \<longrightarrow>
             t = setApplicationName setup n"
    and apps: "set (provisioned_apps tr) = {Application (setApplicationName setup n)}"
    using provision_result [of w "setApplicationName setup n" "h @ pre m"] by blast
  have a: "appended h (finishSetupAndSetApplicationName w setup h) = pre m @ tr"
    using f tr by (simp add: appended_def)
  have "provisioned_apps (pre m @ tr) = provisioned_apps tr"
    by (simp add: provisioned_apps_def pre_def)
  then have "set (map Application.Name
               (provisioned_apps (appended h (finishSetupAndSetApplicationName w setup h)))) = {n}"
    using a apps by (simp add: setApplicationName_def)
  moreover have "\<forall>t. fst (finishSetupAndSetApplicationName w setup h) = Done t \<longrightarrow>
      Application.Name (Application t) = n"
    using f dn by (auto simp add: setApplicationName_def)
  ultimately show ?thesis unfolding n_def Let_def by blast
qed

lemma demo_finishSetup: "fst (finishSetupAndSetApplicationName demo_world zeroTool []) =
   Done (setApplicationName zeroTool ''demo'')"
  by (simp add: finishSetupAndSetApplicationName_def resolveApplicationName_def provision_def
      bind_simps Let_def demo_world_def zeroTool_def zeroApplication_def path_Base_def Getwd_current_def)

theorem C1_application_name_priority_witness:
  "oc_GetNamesByLabel (demo_world\<lparr> appName := ''flagged'' \<rparr>) [] ''dc''
       (OdoLabelName (demo_world\<lparr> appName := ''flagged'' \<rparr>))
       (OdoLabelValue (demo_world\<lparr> appName := ''flagged'' \<rparr>)) = Inr []
   \<and> set (map Application.Name (provisioned_apps (appended []
         (finishSetupAndSetApplicationName (demo_world\<lparr> appName := ''flagged'' \<rparr>)
            (zeroTool\<lparr> Application := demo_manifest \<rparr>) [])))) = {''flagged''}
   \<and> set (map Application.Name (provisioned_apps (appended []
         (finishSetupAndSetApplicationName demo_world
            (zeroTool\<lparr> Application := demo_manifest \<rparr>) [])))) = {''from-manifest''}
   \<and> set (map Application.Name (provisioned_apps (appended []
         (finishSetupAndSetApplicationName demo_world zeroTool [])))) = {''demo''}
   \<and> fst (finishSetupAndSetApplicationName demo_world zeroTool []) =
       Done (setApplicationName zeroTool ''demo'')"
proof -
  have h1: "oc_GetNamesByLabel (demo_world\<lparr> appName := ''flagged'' \<rparr>) [] ''dc''
       (OdoLabelName (demo_world\<lparr> appName := ''flagged'' \<rparr>))
       (OdoLabelValue (demo_world\<lparr> appName := ''flagged'' \<rparr>)) = Inr []"
    by (simp add: demo_world_def)
  have h2: "oc_GetNamesByLabel demo_world [] ''dc''
       (OdoLabelName demo_world) (OdoLabelValue demo_world) = Inr []"
    by (simp add: demo_world_def)
  have b: "path_Base (Getwd_current demo_world) = ''demo''"
    by (simp add: demo_world_def Getwd_current_def path_Base_def)
  have n1: "appName (demo_world\<lparr> appName := ''flagged'' \<rparr>) = ''flagged''" by simp
  have n2: "appName demo_world = []" by (simp add: demo_world_def)
  have m2: "Application.Name demo_manifest = ''from-manifest''"
    by (simp add: demo_manifest_def)
  have m3: "Application.Name (Application zeroTool) = []"
    by (simp add: zeroTool_def zeroApplication_def)
  show ?thesis
    using h1 C1_application_name_priority [OF h1, of "zeroTool\<lparr> Application := demo_manifest \<rparr>"]
      C1_application_name_priority [OF h2, of "zeroTool\<lparr> Application := demo_manifest \<rparr>"]
      C1_application_name_priority [OF h2, of zeroTool]
    by (simp add: Let_def n1 n2 m2 m3 b demo_finishSetup)
qed

text \<open>
  C3. When the label query returns at least one DeploymentConfig, setup takes the reuse
  path: it completes, the \<^verbatim>\<open>Name\<close> of the returned Application is one of the names the
  query returned, nothing else of the Tool has changed, and the trace it appends shows
  no provisioning operation (no ImageStream, PVC, DeploymentConfig, Service or Route
  call) and hands no Application to one.
\<close>

theorem C3_reuse_path:
  assumes "oc_GetNamesByLabel w h ''dc'' (OdoLabelName w) (OdoLabelValue w) = Inr existingDCs"
    and "length existingDCs \<noteq> 0"
  shows "\<exists>t. fst (finishSetupAndSetApplicationName w setup h) = Done t
           \<and> Application.Name (Application t) \<in> set existingDCs
           \<and> Namespace (Application t) = Namespace (Application setup)
           \<and> Image (Application t) = Image (Application setup)
           \<and> KubeConfig t = KubeConfig setup
           \<and> RestConfig t = RestConfig setup
           \<and> Clientset t = Clientset setup
           \<and> provisioning_steps (appended h (finishSetupAndSetApplicationName w setup h)) = []
           \<and> provisioned_apps (appended h (finishSetupAndSetApplicationName w setup h)) = []"
proof -
  obtain d ds where e: "existingDCs = d # ds"
    using assms(2) by (cases existingDCs) auto
  have r: "finishSetupAndSetApplicationName w setup h =
           (Done (setApplicationName setup d),
            h @ [EvGetNamesByLabel ''dc'' (OdoLabelName w) (OdoLabelValue w) (Inr (d # ds)),
                 EvLog Info
                   (''Using application name '%s' from the existing DeploymentConfig labeled with '%s=%s''
                      @ [CHR 0x27])
                   [d, ''io.openshift.odo'', ''inject-supervisord'']])"
    using assms(1) e finishSetup_reuse by simp
  have n: "Application.Name (Application (setApplicationName setup d)) = d"
    by (simp add: setApplicationName_def)
  have f: "Namespace (Application (setApplicationName setup d)) = Namespace (Application setup)
         \<and> Image (Application (setApplicationName setup d)) = Image (Application setup)
         \<and> KubeConfig (setApplicationName setup d) = KubeConfig setup
         \<and> RestConfig (setApplicationName setup d) = RestConfig setup
         \<and> Clientset (setApplicationName setup d) = Clientset setup"
    by (simp add: setApplicationName_def)
  have "fst (finishSetupAndSetApplicationName w setup h) = Done (setApplicationName setup d)"
    using r by simp
  moreover have "Application.Name (Application (setApplicationName setup d)) \<in> set existingDCs"
    using e n by simp
  moreover have "provisioning_steps (appended h (finishSetupAndSetApplicationName w setup h)) = []"
    using r by (simp add: appended_def provisioning_steps_def)
  moreover have "provisioned_apps (appended h (finishSetupAndSetApplicationName w setup h)) = []"
    using r by (simp add: appended_def provisioned_apps_def)
  ultimately show ?thesis using f by blast
qed

theorem C3_reuse_path_witness:
  "oc_GetNamesByLabel (demo_world\<lparr> oc_GetNamesByLabel := \<lambda>h kind name v. Inr [''my-app''] \<rparr>) []
       ''dc'' ''io.openshift.odo'' ''inject-supervisord'' = Inr [''my-app'']
   \<and> length [''my-app''] \<noteq> 0
   \<and> (\<exists>t. fst (finishSetupAndSetApplicationName
                 (demo_world\<lparr> oc_GetNamesByLabel := \<lambda>h kind name v. Inr [''my-app''] \<rparr>)
                 (zeroTool\<lparr> Application := demo_manifest \<rparr>) []) = Done t
          \<and> Application.Name (Application t) = ''my-app''
          \<and> Application.Name demo_manifest = ''from-manifest''
          \<and> Namespace (Application t) = ''manifest-ns''
          \<and> Image (Application t) = Image demo_manifest)
   \<and> provisioning_steps (appended []
         (finishSetupAndSetApplicationName
            (demo_world\<lparr> oc_GetNamesByLabel := \<lambda>h kind name v. Inr [''my-app''] \<rparr>)
            (zeroTool\<lparr> Application := demo_manifest \<rparr>) []))
       = []"
proof -
  have h1: "oc_GetNamesByLabel (demo_world\<lparr> oc_GetNamesByLabel := \<lambda>h kind name v. Inr [''my-app''] \<rparr>) []
       ''dc'' (OdoLabelName (demo_world\<lparr> oc_GetNamesByLabel := \<lambda>h kind name v. Inr [''my-app''] \<rparr>))
       (OdoLabelValue (demo_world\<lparr> oc_GetNamesByLabel := \<lambda>h kind name v. Inr [''my-app''] \<rparr>))
       = Inr [''my-app'']"
    by simp
  have h2: "length [''my-app''] \<noteq> 0" by simp
  have m: "Application.Name demo_manifest = ''from-manifest''
         \<and> Namespace demo_manifest = ''manifest-ns''"
    by (simp add: demo_manifest_def)
  show ?thesis
    using m C3_reuse_path [OF h1 h2, of "zeroTool\<lparr> Application := demo_manifest \<rparr>"]
    by auto
qed

lemma finishSetup_provision_path_quiet:
  assumes "oc_GetNamesByLabel w h ''dc'' (OdoLabelName w) (OdoLabelValue w) = Inr []"
  shows "\<exists>s' pre. finishSetupAndSetApplicationName w setup h = provision w s' (h @ pre)
           \<and> provisioning_steps pre = [] \<and> exec_results pre = []
           \<and> provisioned_apps pre = []
           \<and> (\<exists>n. s' = setApplicationName setup n)"
proof -
  from finishSetup_provision_path [OF assms]
  obtain m where "finishSetupAndSetApplicationName w setup h =
           provision w
             (setApplicationName setup
                (if appName w \<noteq> [] then appName w
                 else if Application.Name (Application setup) \<noteq> []
                      then Application.Name (Application setup)
                      else path_Base (Getwd_current w)))
             (h @ [EvGetNamesByLabel ''dc'' (OdoLabelName w) (OdoLabelValue w) (Inr []),
                   EvLog Info ''Setting up the development pod'' [],
                   EvLog Info m
                     [if appName w \<noteq> [] then appName w
                      else if Application.Name (Application setup) \<noteq> []
                           then Application.Name (Application setup)
                           else path_Base (Getwd_current w)]])"
    by blast
  then show ?thesis
    by (rule_tac x = "setApplicationName setup
                (if appName w \<noteq> [] then appName w
                 else if Application.Name (Application setup) \<noteq> []
                      then Application.Name (Application setup)
                      else path_Base (Getwd_current w))" in exI,
        rule_tac x = "[EvGetNamesByLabel ''dc'' (OdoLabelName w) (OdoLabelValue w) (Inr []),
                   EvLog Info ''Setting up the development pod'' [],
                   EvLog Info m
                     [if appName w \<noteq> [] then appName w
                      else if Application.Name (Application setup) \<noteq> []
                           then Application.Name (Application setup)
                           else path_Base (Getwd_current w)]]" in exI)
       (auto simp add: provisioning_steps_def exec_results_def provisioned_apps_def)
qed

text \<open>
  C4. On the provision path the provisioning operations are called in the order
  ImageStreams, PVC, DeploymentConfig, Service, Route: the operations that a run shows
  are always a prefix of that sequence (a fatal step ends the run), and a completed
  run shows all five. So no Service or Route call precedes the DeploymentConfig call.
\<close>

theorem C4_provisioning_order:
  assumes "oc_GetNamesByLabel w h ''dc'' (OdoLabelName w) (OdoLabelValue w) = Inr []"
  shows "prefix (provisioning_steps (appended h (finishSetupAndSetApplicationName w setup h)))
           [StepImageStreams, StepPVC, StepDeploymentConfig, StepService, StepRoute]
       \<and> (\<forall>t. fst (finishSetupAndSetApplicationName w setup h) = Done t \<longrightarrow>
             provisioning_steps (appended h (finishSetupAndSetApplicationName w setup h)) =
               [StepImageStreams, StepPVC, StepDeploymentConfig, StepService, StepRoute])"
proof -
  obtain s' pre where f: "finishSetupAndSetApplicationName w setup h = provision w s' (h @ pre)"
    and q: "provisioning_steps pre = []"
    using finishSetup_provision_path_quiet [OF assms] by blast
  obtain tr where tr: "snd (provision w s' (h @ pre)) = (h @ pre) @ tr"
    and p: "prefix (provisioning_steps tr)
              [StepImageStreams, StepPVC, StepDeploymentConfig, StepService, StepRoute]"
    and dn: "\<forall>t. fst (provision w s' (h @ pre)) = Done t \<longrightarrow>
               provisioning_steps tr =
                 [StepImageStreams, StepPVC, StepDeploymentConfig, StepService, StepRoute]"
    using provision_result [of w s' "h @ pre"] by blast
  have a: "appended h (finishSetupAndSetApplicationName w setup h) = pre @ tr"
    using f tr by (simp add: appended_def)
  have s: "provisioning_steps (pre @ tr) = provisioning_steps tr"
    using q by (simp add: provisioning_steps_def)
  show ?thesis using a s p dn f by simp
qed

theorem C4_provisioning_order_witness:
  "oc_GetNamesByLabel demo_world [] ''dc'' (OdoLabelName demo_world) (OdoLabelValue demo_world)
     = Inr []
   \<and> fst (finishSetupAndSetApplicationName demo_world zeroTool []) =
       Done (setApplicationName zeroTool ''demo'')
   \<and> provisioning_steps (appended [] (finishSetupAndSetApplicationName demo_world zeroTool [])) =
       [StepImageStreams, StepPVC, StepDeploymentConfig, StepService, StepRoute]"
proof -
  have h1: "oc_GetNamesByLabel demo_world [] ''dc'' (OdoLabelName demo_world)
              (OdoLabelValue demo_world) = Inr []"
    by (simp add: demo_world_def)
  show ?thesis
    using h1 C4_provisioning_order [OF h1, of zeroTool] demo_finishSetup by simp
qed

text \<open>
  C8. When the label query returns more than one DeploymentConfig, the reuse path sets
  the application name to the first element of the returned list; the Tool it returns
  is the same whatever the other elements are.
\<close>

theorem C8_first_labelled_deployment:
  assumes "oc_GetNamesByLabel w h ''dc'' (OdoLabelName w) (OdoLabelValue w) = Inr existingDCs"
    and "length existingDCs > 1"
  shows "fst (finishSetupAndSetApplicationName w setup h) =
           Done (setup\<lparr> Application :=
                        (Application setup)\<lparr> Application.Name := existingDCs ! 0 \<rparr> \<rparr>)
       \<and> (\<forall>w' others.
             oc_GetNamesByLabel w' h ''dc'' (OdoLabelName w') (OdoLabelValue w')
               = Inr (existingDCs ! 0 # others) \<longrightarrow>
             fst (finishSetupAndSetApplicationName w' setup h) =
               fst (finishSetupAndSetApplicationName w setup h))"
proof -
  obtain d ds where e: "existingDCs = d # ds"
    using assms(2) by (cases existingDCs) auto
  have "fst (finishSetupAndSetApplicationName w setup h) = Done (setApplicationName setup d)"
    using assms(1) e finishSetup_reuse [of w h d ds "setup"] by simp
  moreover have "\<And>w' others.
             oc_GetNamesByLabel w' h ''dc'' (OdoLabelName w') (OdoLabelValue w')
               = Inr (d # others) \<Longrightarrow>
             fst (finishSetupAndSetApplicationName w' setup h) = Done (setApplicationName setup d)"
    using finishSetup_reuse by simp
  ultimately show ?thesis using e by (simp add: setApplicationName_def)
qed

theorem C8_first_labelled_deployment_witness:
  "oc_GetNamesByLabel
       (demo_world\<lparr> oc_GetNamesByLabel := \<lambda>h kind name v. Inr [''first'', ''second'', ''third''] \<rparr>)
       [] ''dc'' ''io.openshift.odo'' ''inject-supervisord'' = Inr [''first'', ''second'', ''third'']
   \<and> length [''first'', ''second'', ''third''] > (1::nat)
   \<and> fst (finishSetupAndSetApplicationName
            (demo_world\<lparr> oc_GetNamesByLabel := \<lambda>h kind name v. Inr [''first'', ''second'', ''third''] \<rparr>)
            zeroTool [])
       = Done (zeroTool\<lparr> Application := zeroApplication\<lparr> Application.Name := ''first'' \<rparr> \<rparr>)"
proof -
  have h1: "oc_GetNamesByLabel
       (demo_world\<lparr> oc_GetNamesByLabel := \<lambda>h kind name v. Inr [''first'', ''second'', ''third''] \<rparr>)
       [] ''dc''
       (OdoLabelName (demo_world\<lparr> oc_GetNamesByLabel := \<lambda>h kind name v. Inr [''first'', ''second'', ''third''] \<rparr>))
       (OdoLabelValue (demo_world\<lparr> oc_GetNamesByLabel := \<lambda>h kind name v. Inr [''first'', ''second'', ''third''] \<rparr>))
       = Inr [''first'', ''second'', ''third'']"
    by simp
  have h2: "length [''first'', ''second'', ''third''] > (1::nat)" by simp
  have z: "Application zeroTool = zeroApplication" by (simp add: zeroTool_def)
  show ?thesis
    using C8_first_labelled_deployment [OF h1 h2, of zeroTool]
    by (simp add: z demo_world_def)
qed

subsection \<open>The loop of CreateImageStreamTemplate\<close>

lemma bind_cases:
  "bind m f h =
     (case fst (m h) of
        Done x \<Rightarrow> f x (snd (m h))
      | Exit n \<Rightarrow> (Exit n, snd (m h))
      | Panic p \<Rightarrow> (Panic p, snd (m h)))"
  by (simp add: bind_def split: prod.splits outcome.splits)

lemma imageStreamBody_found:
  assumes "oc_Exists w h ''imagestream'' (Image.Name img)"
  shows "imageStreamBody w imageClient img vs h =
           (Done (vs\<lparr> appCfg := (appCfg vs)\<lparr> Image := img \<rparr> \<rparr>),
            h @ [EvExists ''imagestream'' (Image.Name img) True,
                 EvLog Info '''%s' ImageStream already exists, skipping'' [Image.Name img]])"
  using assms by (simp add: imageStreamBody_def bind_simps Let_def)

lemma imageStreamBody_absent:
  assumes "\<not> oc_Exists w h ''imagestream'' (Image.Name img)"
  shows "\<exists>tr. snd (imageStreamBody w imageClient img vs h) =
           h @ [EvExists ''imagestream'' (Image.Name img) False,
                EvParseTemplate ''imagestream'' ((appCfg vs)\<lparr> Image := img \<rparr>)
                  (ParseTemplate w ''imagestream'' ((appCfg vs)\<lparr> Image := img \<rparr>)),
                EvUnmarshal (ParseTemplate w ''imagestream'' ((appCfg vs)\<lparr> Image := img \<rparr>))
                  (yaml_Unmarshal w (ParseTemplate w ''imagestream'' ((appCfg vs)\<lparr> Image := img \<rparr>)))]
             @ tr
         \<and> (\<forall>vs'. fst (imageStreamBody w imageClient img vs h) = Done vs' \<longrightarrow>
               (\<exists>obj r. tr = [EvImageStreamsCreate (Namespace (appConfig vs)) obj (Inr r)]
                  \<and> yaml_Unmarshal w (ParseTemplate w ''imagestream'' ((appCfg vs)\<lparr> Image := img \<rparr>))
                      = Inr obj))"
  using assms
  by (auto simp add: imageStreamBody_def ImageStreams_Create_call_def bind_simps Let_def 
      split: sum.splits option.splits)

lemma imageStreamBody_trace:
  "\<exists>tr. snd (imageStreamBody w imageClient img vs h) = h @ tr
       \<and> length (filter is_create tr) \<le> length (filter is_absent tr)
       \<and> concat (map checked_name tr) = [Image.Name img]
       \<and> set (rendered_images tr) \<subseteq> {img}
       \<and> (\<forall>vs'. fst (imageStreamBody w imageClient img vs h) = Done vs' \<longrightarrow>
             vs' = vs\<lparr> appCfg := (appCfg vs)\<lparr> Image := img \<rparr> \<rparr>
             \<and> length (filter is_create tr) = length (filter is_absent tr)
             \<and> length (filter is_render tr) = length (filter is_absent tr)
             \<and> length (filter is_decode tr) = length (filter is_absent tr))"
  by (auto simp add: imageStreamBody_def ImageStreams_Create_call_def bind_simps Let_def
      rendered_images_def split: sum.splits option.splits)

lemma imageStreamLoop_trace:
  "\<exists>tr. snd (imageStreamLoop w imageClient imgs vs h) = h @ tr
       \<and> length (filter is_create tr) \<le> length (filter is_absent tr)
       \<and> prefix (concat (map checked_name tr)) (map Image.Name imgs)
       \<and> set (rendered_images tr) \<subseteq> set imgs
       \<and> (\<forall>vs'. fst (imageStreamLoop w imageClient imgs vs h) = Done vs' \<longrightarrow>
             vs' = vs\<lparr> appCfg := (appCfg vs)\<lparr> Image := last (Image (appCfg vs) # imgs) \<rparr> \<rparr>
             \<and> length (filter is_create tr) = length (filter is_absent tr)
             \<and> length (filter is_render tr) = length (filter is_absent tr)
             \<and> length (filter is_decode tr) = length (filter is_absent tr)
             \<and> concat (map checked_name tr) = map Image.Name imgs)"
proof (induction imgs arbitrary: vs h)
  case Nil
  show ?case by (simp add: ret_def rendered_images_def)
next
  case (Cons img rest)
  obtain tr1 where b1: "snd (imageStreamBody w imageClient img vs h) = h @ tr1"
    and b2: "length (filter is_create tr1) \<le> length (filter is_absent tr1)"
    and b3: "concat (map checked_name tr1) = [Image.Name img]"
    and b4: "set (rendered_images tr1) \<subseteq> {img}"
    and b5: "\<forall>vs'. fst (imageStreamBody w imageClient img vs h) = Done vs' \<longrightarrow>
             vs' = vs\<lparr> appCfg := (appCfg vs)\<lparr> Image := img \<rparr> \<rparr>
             \<and> length (filter is_create tr1) = length (filter is_absent tr1)
             \<and> length (filter is_render tr1) = length (filter is_absent tr1)
             \<and> length (filter is_decode tr1) = length (filter is_absent tr1)"
    using imageStreamBody_trace [of w imageClient img vs h] by blast
  show ?case
  proof (cases "fst (imageStreamBody w imageClient img vs h)")
    case (Done vs1)
    then have v: "vs1 = vs\<lparr> appCfg := (appCfg vs)\<lparr> Image := img \<rparr> \<rparr>"
      and c1: "length (filter is_create tr1) = length (filter is_absent tr1)"
      and c2: "length (filter is_render tr1) = length (filter is_absent tr1)"
      and c3: "length (filter is_decode tr1) = length (filter is_absent tr1)"
      using b5 by auto
    have e: "imageStreamLoop w imageClient (img # rest) vs h =
               imageStreamLoop w imageClient rest vs1 (h @ tr1)"
      using Done b1 by (simp add: bind_cases)
    obtain tr2 where l1: "snd (imageStreamLoop w imageClient rest vs1 (h @ tr1)) = (h @ tr1) @ tr2"
      and l2: "length (filter is_create tr2) \<le> length (filter is_absent tr2)"
      and l3: "prefix (concat (map checked_name tr2)) (map Image.Name rest)"
      and l4: "set (rendered_images tr2) \<subseteq> set rest"
      and l5: "\<forall>vs'. fst (imageStreamLoop w imageClient rest vs1 (h @ tr1)) = Done vs' \<longrightarrow>
             vs' = vs1\<lparr> appCfg := (appCfg vs1)\<lparr> Image := last (Image (appCfg vs1) # rest) \<rparr> \<rparr>
             \<and> length (filter is_create tr2) = length (filter is_absent tr2)
             \<and> length (filter is_render tr2) = length (filter is_absent tr2)
             \<and> length (filter is_decode tr2) = length (filter is_absent tr2)
             \<and> concat (map checked_name tr2) = map Image.Name rest"
      using Cons.IH [of vs1 "h @ tr1"] by blast
    have "snd (imageStreamLoop w imageClient (img # rest) vs h) = h @ (tr1 @ tr2)"
      using e l1 by simp
    moreover have "length (filter is_create (tr1 @ tr2)) \<le> length (filter is_absent (tr1 @ tr2))"
      using c1 l2 by simp
    moreover have "prefix (concat (map checked_name (tr1 @ tr2))) (map Image.Name (img # rest))"
      using b3 l3 by simp
    moreover have "set (rendered_images (tr1 @ tr2)) \<subseteq> set (img # rest)"
      using b4 l4 by (auto simp add: rendered_images_def)
    moreover have "\<forall>vs'. fst (imageStreamLoop w imageClient (img # rest) vs h) = Done vs' \<longrightarrow>
             vs' = vs\<lparr> appCfg := (appCfg vs)\<lparr> Image := last (Image (appCfg vs) # img # rest) \<rparr> \<rparr>
             \<and> length (filter is_create (tr1 @ tr2)) = length (filter is_absent (tr1 @ tr2))
             \<and> length (filter is_render (tr1 @ tr2)) = length (filter is_absent (tr1 @ tr2))
             \<and> length (filter is_decode (tr1 @ tr2)) = length (filter is_absent (tr1 @ tr2))
             \<and> concat (map checked_name (tr1 @ tr2)) = map Image.Name (img # rest)"
      using e l5 v c1 c2 c3 b3 by auto
    ultimately show ?thesis by blast
  next
    case (Exit n)
    then have "imageStreamLoop w imageClient (img # rest) vs h = (Exit n, h @ tr1)"
      using b1 by (simp add: bind_cases)
    then show ?thesis using b2 b3 b4 by (intro exI [of _ tr1]) auto
  next
    case (Panic p)
    then have "imageStreamLoop w imageClient (img # rest) vs h = (Panic p, h @ tr1)"
      using b1 by (simp add: bind_cases)
    then show ?thesis using b2 b3 b4 by (intro exI [of _ tr1]) auto
  qed
qed

lemma CreateImageStreamTemplate_nil:
  "CreateImageStreamTemplate w None app imgs h = (Panic NilPointerDereference, h)"
  by (simp add: CreateImageStreamTemplate_def image_NewForConfig_call_def bind_panic)

lemma CreateImageStreamTemplate_loop:
  "CreateImageStreamTemplate w (Some c) app imgs h =
     imageStreamLoop w (case image_NewForConfig w h c of Inl err \<Rightarrow> None | Inr ic \<Rightarrow> Some ic)
       imgs \<lparr> appConfig = app, images = imgs, appCfg = app \<rparr>
       (h @ [EvImageNewForConfig c (image_NewForConfig w h c)])"
  by (simp add: CreateImageStreamTemplate_def image_NewForConfig_call_def bind_extern Let_def)

lemma CreateImageStreamTemplate_trace:
  "\<exists>tr. appended h (CreateImageStreamTemplate w config app imgs h) =
           (case config of
              None \<Rightarrow> []
            | Some c \<Rightarrow> [EvImageNewForConfig c (image_NewForConfig w h c)]) @ tr
       \<and> length (filter is_create tr) \<le> length (filter is_absent tr)
       \<and> prefix (concat (map checked_name tr)) (map Image.Name imgs)
       \<and> set (rendered_images tr) \<subseteq> set imgs
       \<and> (\<forall>vs'. fst (CreateImageStreamTemplate w config app imgs h) = Done vs' \<longrightarrow>
             vs' = \<lparr> appConfig = app, images = imgs,
                     appCfg = app\<lparr> Image := last (Image app # imgs) \<rparr> \<rparr>
             \<and> length (filter is_create tr) = length (filter is_absent tr)
             \<and> length (filter is_render tr) = length (filter is_absent tr)
             \<and> length (filter is_decode tr) = length (filter is_absent tr)
             \<and> concat (map checked_name tr) = map Image.Name imgs)"
proof (cases config)
  case None
  then show ?thesis
    by (simp add: CreateImageStreamTemplate_nil appended_def rendered_images_def)
next
  case (Some c)
  define ic where "ic = (case image_NewForConfig w h c of Inl err \<Rightarrow> None | Inr ic \<Rightarrow> Some ic)"
  define vs where "vs = \<lparr> appConfig = app, images = imgs, appCfg = app \<rparr>"
  define h1 where "h1 = h @ [EvImageNewForConfig c (image_NewForConfig w h c)]"
  have e: "CreateImageStreamTemplate w config app imgs h = imageStreamLoop w ic imgs vs h1"
    using Some by (simp add: CreateImageStreamTemplate_loop ic_def vs_def h1_def)
  obtain tr where l1: "snd (imageStreamLoop w ic imgs vs h1) = h1 @ tr"
    and l2: "length (filter is_create tr) \<le> length (filter is_absent tr)"
    and l3: "prefix (concat (map checked_name tr)) (map Image.Name imgs)"
    and l4: "set (rendered_images tr) \<subseteq> set imgs"
    and l5: "\<forall>vs'. fst (imageStreamLoop w ic imgs vs h1) = Done vs' \<longrightarrow>
             vs' = vs\<lparr> appCfg := (appCfg vs)\<lparr> Image := last (Image (appCfg vs) # imgs) \<rparr> \<rparr>
             \<and> length (filter is_create tr) = length (filter is_absent tr)
             \<and> length (filter is_render tr) = length (filter is_absent tr)
             \<and> length (filter is_decode tr) = length (filter is_absent tr)
             \<and> concat (map checked_name tr) = map Image.Name imgs"
    using imageStreamLoop_trace [of w ic imgs vs h1] by blast
  have "appended h (CreateImageStreamTemplate w config app imgs h) =
           (case config of
              None \<Rightarrow> []
            | Some c \<Rightarrow> [EvImageNewForConfig c (image_NewForConfig w h c)]) @ tr"
    using e l1 Some by (simp add: appended_def h1_def)
  moreover have "\<forall>vs'. fst (CreateImageStreamTemplate w config app imgs h) = Done vs' \<longrightarrow>
             vs' = \<lparr> appConfig = app, images = imgs,
                     appCfg = app\<lparr> Image := last (Image app # imgs) \<rparr> \<rparr>
             \<and> length (filter is_create tr) = length (filter is_absent tr)
             \<and> length (filter is_render tr) = length (filter is_absent tr)
             \<and> length (filter is_decode tr) = length (filter is_absent tr)
             \<and> concat (map checked_name tr) = map Image.Name imgs"
    using e l5 by (simp add: vs_def)
  ultimately show ?thesis using l2 l3 l4 by blast
qed

text \<open>
  C2. In the loop of \<^verbatim>\<open>CreateImageStreamTemplate\<close>, an image whose ImageStream the
  cluster reports as existing gets the existence check and one log line and nothing
  else (no render, no decode, no create request); an image reported absent gets a
  template render and a decode, and a create request when the iteration completes. Over
  the whole call there are never more create requests than "absent" answers, every
  image is checked once and in order, and a completed call has made exactly one render,
  one decode and one create request per "absent" answer.
\<close>

theorem C2_existing_imagestream_not_created:
  "(oc_Exists w h ''imagestream'' (Image.Name img) \<longrightarrow>
      imageStreamBody w imageClient img vs h =
        (Done (vs\<lparr> appCfg := (appCfg vs)\<lparr> Image := img \<rparr> \<rparr>),
         h @ [EvExists ''imagestream'' (Image.Name img) True,
              EvLog Info '''%s' ImageStream already exists, skipping'' [Image.Name img]]))
   \<and> (\<not> oc_Exists w h ''imagestream'' (Image.Name img) \<longrightarrow>
        (\<exists>tr. appended h (imageStreamBody w imageClient img vs h) =
           [EvExists ''imagestream'' (Image.Name img) False,
            EvParseTemplate ''imagestream'' ((appCfg vs)\<lparr> Image := img \<rparr>)
              (ParseTemplate w ''imagestream'' ((appCfg vs)\<lparr> Image := img \<rparr>)),
            EvUnmarshal (ParseTemplate w ''imagestream'' ((appCfg vs)\<lparr> Image := img \<rparr>))
              (yaml_Unmarshal w (ParseTemplate w ''imagestream'' ((appCfg vs)\<lparr> Image := img \<rparr>)))]
           @ tr
         \<and> (\<forall>vs'. fst (imageStreamBody w imageClient img vs h) = Done vs' \<longrightarrow>
               (\<exists>obj r. tr = [EvImageStreamsCreate (Namespace (appConfig vs)) obj (Inr r)]))))
   \<and> (\<exists>tr. appended h (CreateImageStreamTemplate w config app imgs h) =
               (case config of
                  None \<Rightarrow> []
                | Some c \<Rightarrow> [EvImageNewForConfig c (image_NewForConfig w h c)]) @ tr
          \<and> length (filter is_create tr) \<le> length (filter is_absent tr)
          \<and> prefix (concat (map checked_name tr)) (map Image.Name imgs)
          \<and> (\<forall>vs'. fst (CreateImageStreamTemplate w config app imgs h) = Done vs' \<longrightarrow>
                length (filter is_create tr) = length (filter is_absent tr)
                \<and> length (filter is_render tr) = length (filter is_absent tr)
                \<and> length (filter is_decode tr) = length (filter is_absent tr)
                \<and> concat (map checked_name tr) = map Image.Name imgs))"
proof (intro conjI impI)
  assume "oc_Exists w h ''imagestream'' (Image.Name img)"
  then show "imageStreamBody w imageClient img vs h =
        (Done (vs\<lparr> appCfg := (appCfg vs)\<lparr> Image := img \<rparr> \<rparr>),
         h @ [EvExists ''imagestream'' (Image.Name img) True,
              EvLog Info '''%s' ImageStream already exists, skipping'' [Image.Name img]])"
    by (rule imageStreamBody_found)
next
  assume a: "\<not> oc_Exists w h ''imagestream'' (Image.Name img)"
  from imageStreamBody_absent [OF a, of imageClient vs]
  show "\<exists>tr. appended h (imageStreamBody w imageClient img vs h) =
           [EvExists ''imagestream'' (Image.Name img) False,
            EvParseTemplate ''imagestream'' ((appCfg vs)\<lparr> Image := img \<rparr>)
              (ParseTemplate w ''imagestream'' ((appCfg vs)\<lparr> Image := img \<rparr>)),
            EvUnmarshal (ParseTemplate w ''imagestream'' ((appCfg vs)\<lparr> Image := img \<rparr>))
              (yaml_Unmarshal w (ParseTemplate w ''imagestream'' ((appCfg vs)\<lparr> Image := img \<rparr>)))]
           @ tr
         \<and> (\<forall>vs'. fst (imageStreamBody w imageClient img vs h) = Done vs' \<longrightarrow>
               (\<exists>obj r. tr = [EvImageStreamsCreate (Namespace (appConfig vs)) obj (Inr r)]))"
    by (auto simp add: appended_def)
next
  from CreateImageStreamTemplate_trace [of h w config app imgs]
  show "\<exists>tr. appended h (CreateImageStreamTemplate w config app imgs h) =
               (case config of
                  None \<Rightarrow> []
                | Some c \<Rightarrow> [EvImageNewForConfig c (image_NewForConfig w h c)]) @ tr
          \<and> length (filter is_create tr) \<le> length (filter is_absent tr)
          \<and> prefix (concat (map checked_name tr)) (map Image.Name imgs)
          \<and> (\<forall>vs'. fst (CreateImageStreamTemplate w config app imgs h) = Done vs' \<longrightarrow>
                length (filter is_create tr) = length (filter is_absent tr)
                \<and> length (filter is_render tr) = length (filter is_absent tr)
                \<and> length (filter is_decode tr) = length (filter is_absent tr)
                \<and> concat (map checked_name tr) = map Image.Name imgs)"
    by blast
qed

text \<open>
  C10. \<^verbatim>\<open>CreateImageStreamTemplate\<close> leaves its parameters as they were: when it
  returns, \<^verbatim>\<open>appConfig\<close> (all its fields, the Image among them) and \<^verbatim>\<open>images\<close> have
  the values passed in, for any list of images; only the local copy \<^verbatim>\<open>appCfg\<close> has
  changed, and only in its Image field, which is the last image of the list.
\<close>

theorem C10_caller_arguments_unchanged:
  assumes "fst (CreateImageStreamTemplate w config app imgs h) = Done vs"
  shows "appConfig vs = app \<and> images vs = imgs
       \<and> appCfg vs = app\<lparr> Image := last (Image app # imgs) \<rparr>"
  using assms CreateImageStreamTemplate_trace [of h w config app imgs] by auto

lemmas demo_defs = demo_world_def demo_images_def demo_manifest_def demo_trace_def
  CreateTypeImage_def zeroTool_def zeroApplication_def zeroImage_def zeroKube_def

lemmas imagestream_defs = CreateImageStreamTemplate_def image_NewForConfig_call_def
  imageStreamBody_def ImageStreams_Create_call_def

lemma demo_first_run:
  "CreateImageStreamTemplate demo_world (Some (RestConfigRef 0)) demo_manifest demo_images [] =
     (Done \<lparr> appConfig = demo_manifest, images = demo_images,
             appCfg = demo_manifest\<lparr> Image := demo_images ! 1 \<rparr> \<rparr>,
      demo_trace)"
  by (simp add: imagestream_defs bind_simps Let_def demo_defs)

lemma demo_second_run:
  "CreateImageStreamTemplate demo_world (Some (RestConfigRef 0)) demo_manifest demo_images demo_trace =
     (Done \<lparr> appConfig = demo_manifest, images = demo_images,
             appCfg = demo_manifest\<lparr> Image := demo_images ! 1 \<rparr> \<rparr>,
      demo_trace @
      [EvImageNewForConfig (RestConfigRef 0) (Inr (ImageV1ClientRef 0)),
       EvExists ''imagestream'' ''dev-s2i'' True,
       EvLog Info '''%s' ImageStream already exists, skipping'' [''dev-s2i''],
       EvExists ''imagestream'' ''copy-supervisord'' True,
       EvLog Info '''%s' ImageStream already exists, skipping'' [''copy-supervisord'']])"
  by (simp add: imagestream_defs bind_simps Let_def demo_defs)

theorem C2_existing_imagestream_not_created_witness:
  "oc_Exists demo_world demo_trace ''imagestream'' (Image.Name (demo_images ! 0))
   \<and> imageStreamBody demo_world (Some (ImageV1ClientRef 0)) (demo_images ! 0)
        \<lparr> appConfig = demo_manifest, images = demo_images, appCfg = demo_manifest \<rparr> demo_trace =
        (Done \<lparr> appConfig = demo_manifest, images = demo_images,
                appCfg = demo_manifest\<lparr> Image := demo_images ! 0 \<rparr> \<rparr>,
         demo_trace @ [EvExists ''imagestream'' ''dev-s2i'' True,
              EvLog Info '''%s' ImageStream already exists, skipping'' [''dev-s2i'']])
   \<and> \<not> oc_Exists demo_world [] ''imagestream'' (Image.Name (demo_images ! 0))
   \<and> fst (CreateImageStreamTemplate demo_world (Some (RestConfigRef 0)) demo_manifest
             demo_images []) =
        Done \<lparr> appConfig = demo_manifest, images = demo_images,
               appCfg = demo_manifest\<lparr> Image := demo_images ! 1 \<rparr> \<rparr>
   \<and> length (filter is_create (appended []
         (CreateImageStreamTemplate demo_world (Some (RestConfigRef 0)) demo_manifest
            demo_images []))) = 2
   \<and> fst (CreateImageStreamTemplate demo_world (Some (RestConfigRef 0)) demo_manifest
             demo_images demo_trace) =
        Done \<lparr> appConfig = demo_manifest, images = demo_images,
               appCfg = demo_manifest\<lparr> Image := demo_images ! 1 \<rparr> \<rparr>
   \<and> filter is_create (appended demo_trace
         (CreateImageStreamTemplate demo_world (Some (RestConfigRef 0)) demo_manifest
            demo_images demo_trace)) = []"
proof -
  have e1: "oc_Exists demo_world demo_trace ''imagestream'' (Image.Name (demo_images ! 0))"
    by (simp add: demo_defs)
  have e0: "\<not> oc_Exists demo_world [] ''imagestream'' (Image.Name (demo_images ! 0))"
    by (simp add: demo_defs)
  have n: "Image.Name (demo_images ! 0) = ''dev-s2i''"
    by (simp add: demo_defs)
  have b: "imageStreamBody demo_world (Some (ImageV1ClientRef 0)) (demo_images ! 0)
        \<lparr> appConfig = demo_manifest, images = demo_images, appCfg = demo_manifest \<rparr> demo_trace =
        (Done \<lparr> appConfig = demo_manifest, images = demo_images,
                appCfg = demo_manifest\<lparr> Image := demo_images ! 0 \<rparr> \<rparr>,
         demo_trace @ [EvExists ''imagestream'' ''dev-s2i'' True,
              EvLog Info '''%s' ImageStream already exists, skipping'' [''dev-s2i'']])"
    using e1 n
      C2_existing_imagestream_not_created [of demo_world demo_trace "demo_images ! 0"
        "Some (ImageV1ClientRef 0)"
        "\<lparr> appConfig = demo_manifest, images = demo_images, appCfg = demo_manifest \<rparr>"]
    by simp
  have c1: "length (filter is_create (appended []
         (CreateImageStreamTemplate demo_world (Some (RestConfigRef 0)) demo_manifest
            demo_images []))) = 2"
    by (simp add: demo_first_run appended_def) (simp add: demo_trace_def)
  have c2: "filter is_create (appended demo_trace
         (CreateImageStreamTemplate demo_world (Some (RestConfigRef 0)) demo_manifest
            demo_images demo_trace)) = []"
    by (simp add: demo_second_run appended_def)
  show ?thesis
    using e1 e0 b c1 c2 by (simp add: demo_first_run demo_second_run)
qed

theorem C10_caller_arguments_unchanged_witness:
  "fst (CreateImageStreamTemplate demo_world (Some (RestConfigRef 0)) demo_manifest
          demo_images []) =
     Done \<lparr> appConfig = demo_manifest, images = demo_images,
            appCfg = demo_manifest\<lparr> Image := demo_images ! 1 \<rparr> \<rparr>
   \<and> appConfig \<lparr> appConfig = demo_manifest, images = demo_images,
                  appCfg = demo_manifest\<lparr> Image := demo_images ! 1 \<rparr> \<rparr> = demo_manifest
   \<and> images \<lparr> appConfig = demo_manifest, images = demo_images,
               appCfg = demo_manifest\<lparr> Image := demo_images ! 1 \<rparr> \<rparr> = demo_images
   \<and> Image demo_manifest \<noteq> demo_images ! 1"
proof -
  have d: "fst (CreateImageStreamTemplate demo_world (Some (RestConfigRef 0)) demo_manifest
          demo_images []) =
     Done \<lparr> appConfig = demo_manifest, images = demo_images,
            appCfg = demo_manifest\<lparr> Image := demo_images ! 1 \<rparr> \<rparr>"
    by (simp add: demo_first_run)
  have "Image demo_manifest \<noteq> demo_images ! 1"
    by (simp add: demo_defs)
  then show ?thesis
    using d C10_caller_arguments_unchanged [OF d] by simp
qed

lemma parseManifest_result:
  "parseManifest w h =
     (case manifest_file w (Getwd_current w @ ''/MANIFEST'') of
        None \<Rightarrow> Done zeroApplication
      | Some source \<Rightarrow>
          (case manifest_decode w source of
             Inl parse_error \<Rightarrow> Panic (PanicError parse_error)
           | Inr app \<Rightarrow> Done app),
      h @ [EvLog Info ''Parse MANIFEST of the project if it exists'' [],
           EvParseManifest (Getwd_current w @ ''/MANIFEST'')])"
  by (simp add: parseManifest_def ParseManifest_def bind_simps Let_def
      split: option.splits sum.splits)

text \<open>
  C6. \<^verbatim>\<open>parseManifest\<close> hands the path \<^verbatim>\<open>MANIFEST\<close> under the working directory to the
  manifest parser and returns what it returns: the decoded Application when the file
  is there and well-formed, the zero-value Application (and no failure) when the file
  is absent, and a failure carrying the parse error when the file is malformed.
\<close>

theorem C6_manifest_parser_contract:
  "(manifest_file w (Getwd_current w @ ''/MANIFEST'') = None \<longrightarrow>
      fst (parseManifest w h) = Done zeroApplication)
   \<and> (\<forall>source app.
         manifest_file w (Getwd_current w @ ''/MANIFEST'') = Some source
         \<and> manifest_decode w source = Inr app \<longrightarrow>
         fst (parseManifest w h) = Done app)
   \<and> (\<forall>source parse_error.
         manifest_file w (Getwd_current w @ ''/MANIFEST'') = Some source
         \<and> manifest_decode w source = Inl parse_error \<longrightarrow>
         fst (parseManifest w h) = Panic (PanicError parse_error))
   \<and> (\<forall>path. manifest_file w path = None \<longrightarrow> fst (ParseManifest w path h) = Done zeroApplication)"
proof (intro conjI allI impI)
  assume "manifest_file w (Getwd_current w @ ''/MANIFEST'') = None"
  then show "fst (parseManifest w h) = Done zeroApplication"
    by (simp add: parseManifest_result)
next
  fix source app
  assume "manifest_file w (Getwd_current w @ ''/MANIFEST'') = Some source
            \<and> manifest_decode w source = Inr app"
  then show "fst (parseManifest w h) = Done app"
    by (simp add: parseManifest_result)
next
  fix source parse_error
  assume "manifest_file w (Getwd_current w @ ''/MANIFEST'') = Some source
            \<and> manifest_decode w source = Inl parse_error"
  then show "fst (parseManifest w h) = Panic (PanicError parse_error)"
    by (simp add: parseManifest_result)
next
  fix path
  assume "manifest_file w path = None"
  then show "fst (ParseManifest w path h) = Done zeroApplication"
    by (simp add: ParseManifest_def bind_simps)
qed

theorem C6_manifest_parser_contract_witness:
  "manifest_file demo_world (Getwd_current demo_world @ ''/MANIFEST'') = None
   \<and> fst (parseManifest demo_world []) = Done zeroApplication
   \<and> manifest_file (demo_world\<lparr> manifest_file := \<lambda>p. Some ''name: ['' \<rparr>)
        (Getwd_current (demo_world\<lparr> manifest_file := \<lambda>p. Some ''name: ['' \<rparr>) @ ''/MANIFEST'')
       = Some ''name: [''
   \<and> manifest_decode (demo_world\<lparr> manifest_file := \<lambda>p. Some ''name: ['' \<rparr>) ''name: [''
       = Inl (GoError ''yaml: unmarshal error'')
   \<and> fst (parseManifest (demo_world\<lparr> manifest_file := \<lambda>p. Some ''name: ['' \<rparr>) []) =
       Panic (PanicError (GoError ''yaml: unmarshal error''))
   \<and> fst (parseManifest (demo_world\<lparr> manifest_file := \<lambda>p. Some ''name: demo'',
                                       manifest_decode := \<lambda>s. Inr demo_manifest \<rparr>) []) =
       Done demo_manifest"
proof -
  have a: "manifest_file demo_world (Getwd_current demo_world @ ''/MANIFEST'') = None"
    by (simp add: demo_world_def)
  have b: "manifest_file (demo_world\<lparr> manifest_file := \<lambda>p. Some ''name: ['' \<rparr>)
        (Getwd_current (demo_world\<lparr> manifest_file := \<lambda>p. Some ''name: ['' \<rparr>) @ ''/MANIFEST'')
       = Some ''name: [''"
    by simp
  have c: "manifest_decode (demo_world\<lparr> manifest_file := \<lambda>p. Some ''name: ['' \<rparr>) ''name: [''
       = Inl (GoError ''yaml: unmarshal error'')"
    by (simp add: demo_world_def)
  have d: "manifest_file (demo_world\<lparr> manifest_file := \<lambda>p. Some ''name: demo'',
                                       manifest_decode := \<lambda>s. Inr demo_manifest \<rparr>)
        (Getwd_current (demo_world\<lparr> manifest_file := \<lambda>p. Some ''name: demo'',
                                       manifest_decode := \<lambda>s. Inr demo_manifest \<rparr>) @ ''/MANIFEST'')
       = Some ''name: demo''
     \<and> manifest_decode (demo_world\<lparr> manifest_file := \<lambda>p. Some ''name: demo'',
                                       manifest_decode := \<lambda>s. Inr demo_manifest \<rparr>) ''name: demo''
       = Inr demo_manifest"
    by simp
  show ?thesis
    using a b c d
      C6_manifest_parser_contract [of demo_world "[]"]
      C6_manifest_parser_contract [of "demo_world\<lparr> manifest_file := \<lambda>p. Some ''name: ['' \<rparr>" "[]"]
      C6_manifest_parser_contract [of "demo_world\<lparr> manifest_file := \<lambda>p. Some ''name: demo'',
                                       manifest_decode := \<lambda>s. Inr demo_manifest \<rparr>" "[]"]
    by blast
qed

lemma CreateImageStreamTemplate_error_ignored:
  assumes "image_NewForConfig w h c = Inl err"
  shows "CreateImageStreamTemplate w (Some c) app imgs h =
           imageStreamLoop w None imgs \<lparr> appConfig = app, images = imgs, appCfg = app \<rparr>
             (h @ [EvImageNewForConfig c (Inl err)])"
  using assms by (simp add: CreateImageStreamTemplate_loop)

text \<open>
  C5 (the code departs from it). When \<^verbatim>\<open>NewForConfig\<close> answers an error for the
  (non-nil) config in \<^verbatim>\<open>CreateImageStreamTemplate\<close>, nothing is logged and the process
  does not exit: with an image whose ImageStream exists the call returns normally, and
  with an absent one it goes on to render and decode and then panics on the nil client,
  which is neither a logged fatal error nor exit code 1.
\<close>

theorem C5_clientset_error_ignored:
  "CreateImageStreamTemplate
     (demo_world\<lparr> image_NewForConfig := \<lambda>h c. Inl (GoError ''invalid configuration''),
                  oc_Exists := \<lambda>h kind name. True \<rparr>)
     (Some (RestConfigRef 0)) demo_manifest [demo_images ! 0] [] =
     (Done \<lparr> appConfig = demo_manifest, images = [demo_images ! 0],
             appCfg = demo_manifest\<lparr> Image := demo_images ! 0 \<rparr> \<rparr>,
      [EvImageNewForConfig (RestConfigRef 0) (Inl (GoError ''invalid configuration'')),
       EvExists ''imagestream'' ''dev-s2i'' True,
       EvLog Info '''%s' ImageStream already exists, skipping'' [''dev-s2i'']])
   \<and> CreateImageStreamTemplate
     (demo_world\<lparr> image_NewForConfig := \<lambda>h c. Inl (GoError ''invalid configuration'') \<rparr>)
     (Some (RestConfigRef 0)) demo_manifest [demo_images ! 0] [] =
     (Panic NilPointerDereference,
      [EvImageNewForConfig (RestConfigRef 0) (Inl (GoError ''invalid configuration'')),
       EvExists ''imagestream'' ''dev-s2i'' False,
       EvParseTemplate ''imagestream'' (demo_manifest\<lparr> Image := demo_images ! 0 \<rparr>) ''dev-s2i'',
       EvUnmarshal ''dev-s2i'' (Inr (ImageStreamObj ''dev-s2i''))])"
  by (simp add: imagestream_defs bind_simps Let_def demo_defs)

subsection \<open>Setup\<close>

lemma finishSetup_frame:
  "\<exists>tr. snd (finishSetupAndSetApplicationName w setup h) = h @ tr
       \<and> exec_results tr = []
       \<and> (\<forall>t. fst (finishSetupAndSetApplicationName w setup h) = Done t \<longrightarrow>
             (\<exists>n. t = setApplicationName setup n))"
proof (cases "oc_GetNamesByLabel w h ''dc'' (OdoLabelName w) (OdoLabelValue w)")
  case (Inl err)
  then have "finishSetupAndSetApplicationName w setup h =
      (Exit 1, h @ [EvGetNamesByLabel ''dc'' (OdoLabelName w) (OdoLabelValue w) (Inl err),
                    EvLog Fatal
                      ''Error retrieving DeploymentConfig labeled %s=%s. Are you logged in?''
                      [OdoLabelName w, OdoLabelValue w]])"
    by (simp add: finishSetupAndSetApplicationName_def bind_simps)
  then show ?thesis by (simp add: exec_results_def)
next
  case (Inr existingDCs)
  show ?thesis
  proof (cases existingDCs)
    case Nil
    then have g: "oc_GetNamesByLabel w h ''dc'' (OdoLabelName w) (OdoLabelValue w) = Inr []"
      using Inr by simp
    obtain s' pre where f: "finishSetupAndSetApplicationName w setup h = provision w s' (h @ pre)"
      and q: "exec_results pre = []" and n: "\<exists>n. s' = setApplicationName setup n"
      using finishSetup_provision_path_quiet [OF g, of "setup"] by blast
    obtain tr where tr: "snd (provision w s' (h @ pre)) = (h @ pre) @ tr"
      and dn: "\<forall>t. fst (provision w s' (h @ pre)) = Done t \<longrightarrow> t = s'"
      and x: "exec_results tr = []"
      using provision_result [of w s' "h @ pre"] by blast
    have "snd (finishSetupAndSetApplicationName w setup h) = h @ (pre @ tr)"
      using f tr by simp
    moreover have "exec_results (pre @ tr) = []"
      using q x by (simp add: exec_results_def)
    moreover have "\<forall>t. fst (finishSetupAndSetApplicationName w setup h) = Done t \<longrightarrow>
             (\<exists>n. t = setApplicationName setup n)"
      using f dn n by auto
    ultimately show ?thesis by blast
  next
    case (Cons d ds)
    then have "oc_GetNamesByLabel w h ''dc'' (OdoLabelName w) (OdoLabelValue w) = Inr (d # ds)"
      using Inr by simp
    from finishSetup_reuse [OF this, of "setup"]
    show ?thesis by (auto simp add: exec_results_def)
  qed
qed

lemma getK8Config_result:
  "getK8Config w h =
     (Done (zeroKube\<lparr> Config := (if kubeconfig w = [] then HomeKubePath w else kubeconfig w) \<rparr>),
      h @ [EvLog Info ''Get K8s config file'' [],
           EvLog Debug ''Kubeconfig : ''
             [if kubeconfig w = [] then HomeKubePath w else kubeconfig w, []]])"
  by (simp add: getK8Config_def bind_simps Let_def zeroKube_def)

lemma createKubeRestconfig_result:
  "createKubeRestconfig w kubeCfg h =
     (case BuildConfigFromFlags w
             (h @ [EvLog Info
                     ''Create k8s Rest config client using the developer's machine config file'' []])
             (MasterURL kubeCfg) (Config kubeCfg) of
        Inl err \<Rightarrow>
          (Exit 1,
           h @ [EvLog Info
                  ''Create k8s Rest config client using the developer's machine config file'' [],
                EvBuildConfigFromFlags (MasterURL kubeCfg) (Config kubeCfg) (Inl err),
                EvLog Fatal ''Error building kubeconfig: %s'' [Error err]])
      | Inr c \<Rightarrow>
          (Done (Some c),
           h @ [EvLog Info
                  ''Create k8s Rest config client using the developer's machine config file'' [],
                EvBuildConfigFromFlags (MasterURL kubeCfg) (Config kubeCfg) (Inr c)]))"
  by (simp add: createKubeRestconfig_def bind_simps split: sum.splits)

lemma createClientSet_nil:
  "createClientSet w kubeCfg [None] h =
     (Panic NilPointerDereference, h @ [EvLog Info ''Create k8s Clientset'' []])"
  by (simp add: createClientSet_def kubernetes_NewForConfig_call_def bind_simps)

lemma createClientSet_result:
  "createClientSet w kubeCfg [Some restCfg] h =
     (case kubernetes_NewForConfig w (h @ [EvLog Info ''Create k8s Clientset'' []]) restCfg of
        Inl err \<Rightarrow>
          (Exit 1,
           h @ [EvLog Info ''Create k8s Clientset'' [],
                EvKubernetesNewForConfig restCfg (Inl err),
                EvLog Fatal ''Error building kubernetes clientset: %s'' [Error err]])
      | Inr c \<Rightarrow>
          (Done (Some c),
           h @ [EvLog Info ''Create k8s Clientset'' [],
                EvKubernetesNewForConfig restCfg (Inr c)]))"
  by (simp add: createClientSet_def kubernetes_NewForConfig_call_def bind_simps
      split: sum.splits)

lemma finishSetup_exec_results:
  "exec_results (appended h (finishSetupAndSetApplicationName w s (h @ pre))) = exec_results pre"
proof -
  obtain tr where "snd (finishSetupAndSetApplicationName w s (h @ pre)) = (h @ pre) @ tr"
    and "exec_results tr = []"
    using finishSetup_frame [of w s "h @ pre"] by blast
  then show ?thesis by (simp add: appended_def exec_results_def)
qed

lemma finishSetup_Done_frame:
  assumes "fst (finishSetupAndSetApplicationName w s h) = Done t"
  shows "Namespace (Application t) = Namespace (Application s)
       \<and> Image (Application t) = Image (Application s)
       \<and> KubeConfig t = KubeConfig s \<and> RestConfig t = RestConfig s \<and> Clientset t = Clientset s"
  using assms finishSetup_frame [of w s h] by (auto simp add: setApplicationName_def)

text \<open>
  C9. A completed \<^verbatim>\<open>Setup\<close> has run exactly one cluster command,
  \<^verbatim>\<open>project -q\<close> with the \<^verbatim>\<open>--namespace\<close> flag, and the namespace of the returned
  Application is the string that command returned, whatever the MANIFEST held.
\<close>

theorem C9_namespace_overwritten:
  assumes "fst (Setup w h) = Done tool"
  shows "exec_results (appended h (Setup w h)) =
           [([''project'', ''-q'', namespace w], Inr (Namespace (Application tool)))]"
  using assms
  by (auto simp add: Setup_def bind_cases [of "parseManifest w"] parseManifest_result
      bind_cases [of "getK8Config w"] getK8Config_result 
      bind_cases [of "createKubeRestconfig w _"] createKubeRestconfig_result
      bind_cases [of "createClientSet w _ _"] createClientSet_result
      bind_extern bind_log_Info log_Fatal_result Let_def
      finishSetup_exec_results exec_results_def [of "_ # _"]
      split: option.split sum.split
      split del: if_split
      dest!: finishSetup_Done_frame)

lemmas setup_defs = Setup_def parseManifest_def ParseManifest_def getK8Config_def
  createKubeRestconfig_def createClientSet_def kubernetes_NewForConfig_call_def
  finishSetupAndSetApplicationName_def
  resolveApplicationName_def provision_def setApplicationName_def Getwd_current_def
  path_Base_def

lemma demo_Setup:
  "fst (Setup demo_world_manifest []) =
     Done \<lparr> Application = demo_manifest\<lparr> Namespace := ''myproject'' \<rparr>,
            KubeConfig = \<lparr> Config = ''/home/dev/.kube/config'', MasterURL = [] \<rparr>,
            RestConfig = Some (RestConfigRef 0), Clientset = Some (ClientsetRef 0) \<rparr>"
  by (simp add: setup_defs bind_simps Let_def demo_world_manifest_def demo_defs)

theorem C9_namespace_overwritten_witness:
  "fst (Setup demo_world_manifest []) =
     Done \<lparr> Application = demo_manifest\<lparr> Namespace := ''myproject'' \<rparr>,
            KubeConfig = \<lparr> Config = ''/home/dev/.kube/config'', MasterURL = [] \<rparr>,
            RestConfig = Some (RestConfigRef 0), Clientset = Some (ClientsetRef 0) \<rparr>
   \<and> Namespace demo_manifest = ''manifest-ns''
   \<and> exec_results (appended [] (Setup demo_world_manifest [])) =
       [([''project'', ''-q'', []], Inr ''myproject'')]"
proof -
  have n: "namespace demo_world_manifest = []"
    by (simp add: demo_world_manifest_def demo_world_def)
  have m: "Namespace demo_manifest = ''manifest-ns''"
    by (simp add: demo_manifest_def)
  show ?thesis
    using C9_namespace_overwritten [OF demo_Setup] demo_Setup n m by simp
qed

subsection \<open>Images through Setup\<close>

lemma appended_pair: "appended h (r, h @ tr) = tr"
  by (simp add: appended_def)

lemma finishSetup_provisioned_images:
  "\<exists>tr. snd (finishSetupAndSetApplicationName w setup h) = h @ tr
       \<and> (\<forall>a. a \<in> set (provisioned_apps tr) \<longrightarrow> Image a = Image (Application setup))"
proof (cases "oc_GetNamesByLabel w h ''dc'' (OdoLabelName w) (OdoLabelValue w)")
  case (Inl err)
  then have "finishSetupAndSetApplicationName w setup h =
      (Exit 1, h @ [EvGetNamesByLabel ''dc'' (OdoLabelName w) (OdoLabelValue w) (Inl err),
                    EvLog Fatal
                      ''Error retrieving DeploymentConfig labeled %s=%s. Are you logged in?''
                      [OdoLabelName w, OdoLabelValue w]])"
    by (simp add: finishSetupAndSetApplicationName_def bind_simps)
  then show ?thesis by (simp add: provisioned_apps_def)
next
  case (Inr existingDCs)
  show ?thesis
  proof (cases existingDCs)
    case Nil
    then have g: "oc_GetNamesByLabel w h ''dc'' (OdoLabelName w) (OdoLabelValue w) = Inr []"
      using Inr by simp
    obtain s' pre where f: "finishSetupAndSetApplicationName w setup h = provision w s' (h @ pre)"
      and q: "provisioned_apps pre = []" and n: "\<exists>n. s' = setApplicationName setup n"
      using finishSetup_provision_path_quiet [OF g, of "setup"] by blast
    obtain tr where tr: "snd (provision w s' (h @ pre)) = (h @ pre) @ tr"
      and x: "set (provisioned_apps tr) = {Application s'}"
      using provision_result [of w s' "h @ pre"] by blast
    have i: "Image (Application s') = Image (Application setup)"
      using n by (auto simp add: setApplicationName_def)
    have "snd (finishSetupAndSetApplicationName w setup h) = h @ (pre @ tr)"
      using f tr by simp
    moreover have "provisioned_apps (pre @ tr) = provisioned_apps tr"
      using q by (simp add: provisioned_apps_def)
    ultimately show ?thesis using x i by auto
  next
    case (Cons d ds)
    then have "oc_GetNamesByLabel w h ''dc'' (OdoLabelName w) (OdoLabelValue w) = Inr (d # ds)"
      using Inr by simp
    from finishSetup_reuse [OF this, of "setup"]
    show ?thesis by (simp add: provisioned_apps_def)
  qed
qed

lemma finishSetup_provisioned_image_dest:
  assumes "a \<in> set (provisioned_apps (appended h (finishSetupAndSetApplicationName w s (h @ pre))))"
  shows "a \<in> set (provisioned_apps pre) \<or> Image a = Image (Application s)"
proof -
  obtain tr where t: "snd (finishSetupAndSetApplicationName w s (h @ pre)) = (h @ pre) @ tr"
    and i: "\<forall>a. a \<in> set (provisioned_apps tr) \<longrightarrow> Image a = Image (Application s)"
    using finishSetup_provisioned_images [of w s "h @ pre"] by blast
  have "appended h (finishSetupAndSetApplicationName w s (h @ pre)) = pre @ tr"
    using t by (simp add: appended_def)
  then have "a \<in> set (provisioned_apps pre) \<or> a \<in> set (provisioned_apps tr)"
    using assms by (auto simp add: provisioned_apps_def)
  then show ?thesis using i by blast
qed

text \<open>
  C7. \<^verbatim>\<open>CreateTypeImage\<close> returns an Image with exactly the three values given, and
  no operation of the two source files alters an Image.
  \<^verbatim>\<open>CreateImageStreamTemplate\<close>: every Image handed to the template renderer is one of
  the Images of its input list, the list and the Image of \<^verbatim>\<open>appConfig\<close> are as passed
  in when it returns, and the Image of the local \<^verbatim>\<open>appCfg\<close> is the original one or one
  of the list (the assignment replaces the whole Image).
  \<^verbatim>\<open>finishSetupAndSetApplicationName\<close>: the Application it returns, and every
  Application it hands to a provisioning operation, has the Image it was given.
  \<^verbatim>\<open>parseManifest\<close> returns what the manifest parser returns, unaltered.
  \<^verbatim>\<open>Setup\<close>: the Application it returns, and every Application it hands to a
  provisioning operation, has the Image of the Application that \<^verbatim>\<open>parseManifest\<close>
  returned. \<^verbatim>\<open>SetupAndWaitForPod\<close> returns the Tool of \<^verbatim>\<open>Setup\<close> and hands its
  Application to the pod watch.
\<close>

theorem C7_image_immutable:
  "Image.Name (CreateTypeImage name repo annotationCmd) = name
   \<and> Repo (CreateTypeImage name repo annotationCmd) = repo
   \<and> AnnotationCmds (CreateTypeImage name repo annotationCmd) = annotationCmd
   \<and> set (rendered_images (appended h (CreateImageStreamTemplate w config app imgs h)))
        \<subseteq> set imgs
   \<and> (\<forall>vs. fst (CreateImageStreamTemplate w config app imgs h) = Done vs \<longrightarrow>
         images vs = imgs \<and> Image (appConfig vs) = Image app
         \<and> Image (appCfg vs) \<in> set (Image app # imgs))
   \<and> (\<forall>t. fst (finishSetupAndSetApplicationName w setup h) = Done t \<longrightarrow>
         Image (Application t) = Image (Application setup))
   \<and> set (map Image (provisioned_apps (appended h (finishSetupAndSetApplicationName w setup h))))
        \<subseteq> {Image (Application setup)}
   \<and> fst (parseManifest w h) =
       fst (ParseManifest w (Getwd_current w @ ''/MANIFEST'')
              (h @ [EvLog Info ''Parse MANIFEST of the project if it exists'' []]))
   \<and> (\<forall>manifest_app.
         fst (parseManifest w h) = Done manifest_app \<longrightarrow>
         (\<forall>t. fst (Setup w h) = Done t \<longrightarrow> Image (Application t) = Image manifest_app)
         \<and> set (map Image (provisioned_apps (appended h (Setup w h)))) \<subseteq> {Image manifest_app}
         \<and> (\<forall>t pod tr.
               SetupAndWaitForPod w h = Some (Done (t, pod), tr) \<longrightarrow>
               Image (Application t) = Image manifest_app
               \<and> tr = snd (Setup w h) @
                        [EvLog Info ''Wait till the dev pod is available'' [],
                         EvWaitAndGetPod (Clientset t) (Application t) (Inr pod)]))"
proof -
  obtain tr where a: "appended h (CreateImageStreamTemplate w config app imgs h) =
           (case config of
              None \<Rightarrow> []
            | Some c \<Rightarrow> [EvImageNewForConfig c (image_NewForConfig w h c)]) @ tr"
    and r: "set (rendered_images tr) \<subseteq> set imgs"
    and d: "\<forall>vs'. fst (CreateImageStreamTemplate w config app imgs h) = Done vs' \<longrightarrow>
             vs' = \<lparr> appConfig = app, images = imgs,
                     appCfg = app\<lparr> Image := last (Image app # imgs) \<rparr> \<rparr>"
    using CreateImageStreamTemplate_trace [of h w config app imgs] by blast
  have c4: "set (rendered_images (appended h (CreateImageStreamTemplate w config app imgs h)))
        \<subseteq> set imgs"
    using a r by (simp add: rendered_images_def split: option.splits)
  have c5: "\<forall>vs. fst (CreateImageStreamTemplate w config app imgs h) = Done vs \<longrightarrow>
         images vs = imgs \<and> Image (appConfig vs) = Image app
         \<and> Image (appCfg vs) \<in> set (Image app # imgs)"
  proof (intro allI impI)
    fix vs assume "fst (CreateImageStreamTemplate w config app imgs h) = Done vs"
    then have v: "vs = \<lparr> appConfig = app, images = imgs,
                     appCfg = app\<lparr> Image := last (Image app # imgs) \<rparr> \<rparr>"
      using d by blast
    have "last (Image app # imgs) \<in> set (Image app # imgs)"
      by (rule last_in_set) simp
    then show "images vs = imgs \<and> Image (appConfig vs) = Image app
         \<and> Image (appCfg vs) \<in> set (Image app # imgs)"
      using v by simp
  qed
  have c6: "\<forall>t. fst (finishSetupAndSetApplicationName w setup h) = Done t \<longrightarrow>
         Image (Application t) = Image (Application setup)"
    using finishSetup_Done_frame by blast
  have c7: "set (map Image (provisioned_apps
                (appended h (finishSetupAndSetApplicationName w setup h))))
        \<subseteq> {Image (Application setup)}"
    using finishSetup_provisioned_images [of w "setup" h] by (auto simp add: appended_def)
  have c8: "fst (parseManifest w h) =
       fst (ParseManifest w (Getwd_current w @ ''/MANIFEST'')
              (h @ [EvLog Info ''Parse MANIFEST of the project if it exists'' []]))"
    by (simp add: parseManifest_def bind_log_Info Let_def)
  have setup_done: "Image (Application t) = Image manifest_app"
    if "fst (parseManifest w h) = Done manifest_app" and "fst (Setup w h) = Done t"
    for manifest_app t
    using that
    by (auto simp add: Setup_def bind_cases [of "parseManifest w"] parseManifest_result
        bind_cases [of "getK8Config w"] getK8Config_result
        bind_cases [of "createKubeRestconfig w _"] createKubeRestconfig_result
        bind_cases [of "createClientSet w _ _"] createClientSet_result
        bind_extern bind_log_Info log_Fatal_result Let_def
        split: option.split sum.split option.split_asm sum.split_asm
        split del: if_split
        dest!: finishSetup_Done_frame)
  have setup_calls: "Image a = Image manifest_app"
    if "fst (parseManifest w h) = Done manifest_app"
      and "a \<in> set (provisioned_apps (appended h (Setup w h)))"
    for manifest_app a
    using that
    by (auto simp add: Setup_def bind_cases [of "parseManifest w"] parseManifest_result
        bind_cases [of "getK8Config w"] getK8Config_result
        bind_cases [of "createKubeRestconfig w _"] createKubeRestconfig_result
        bind_cases [of "createClientSet w _ _"] createClientSet_result
        bind_extern bind_log_Info log_Fatal_result Let_def
        appended_pair provisioned_apps_def [of "_ # _"]
        split: option.split sum.split option.split_asm sum.split_asm
        split del: if_split
        dest!: finishSetup_provisioned_image_dest)
  have wait_done: "fst (Setup w h) = Done t
       \<and> tr = snd (Setup w h) @
                [EvLog Info ''Wait till the dev pod is available'' [],
                 EvWaitAndGetPod (Clientset t) (Application t) (Inr pod)]"
    if "SetupAndWaitForPod w h = Some (Done (t, pod), tr)" for t pod tr
    using that
    by (auto simp add: SetupAndWaitForPod_def Let_def log_Fatal_result
        split: prod.splits outcome.splits option.splits sum.splits)
  have c9: "\<forall>manifest_app.
         fst (parseManifest w h) = Done manifest_app \<longrightarrow>
         (\<forall>t. fst (Setup w h) = Done t \<longrightarrow> Image (Application t) = Image manifest_app)
         \<and> set (map Image (provisioned_apps (appended h (Setup w h)))) \<subseteq> {Image manifest_app}
         \<and> (\<forall>t pod tr.
               SetupAndWaitForPod w h = Some (Done (t, pod), tr) \<longrightarrow>
               Image (Application t) = Image manifest_app
               \<and> tr = snd (Setup w h) @
                        [EvLog Info ''Wait till the dev pod is available'' [],
                         EvWaitAndGetPod (Clientset t) (Application t) (Inr pod)])"
  proof (intro allI impI conjI)
    fix manifest_app t
    assume "fst (parseManifest w h) = Done manifest_app" and "fst (Setup w h) = Done t"
    then show "Image (Application t) = Image manifest_app"
      by (rule setup_done)
  next
    fix manifest_app
    assume "fst (parseManifest w h) = Done manifest_app"
    then show "set (map Image (provisioned_apps (appended h (Setup w h)))) \<subseteq> {Image manifest_app}"
      using setup_calls [of manifest_app] by auto
  next
    fix manifest_app t pod tr
    assume p: "fst (parseManifest w h) = Done manifest_app"
      and s: "SetupAndWaitForPod w h = Some (Done (t, pod), tr)"
    from wait_done [OF s] have "fst (Setup w h) = Done t" by simp
    with p show "Image (Application t) = Image manifest_app"
      by (rule setup_done)
  next
    fix manifest_app t pod tr
    assume "SetupAndWaitForPod w h = Some (Done (t, pod), tr)"
    from wait_done [OF this]
    show "tr = snd (Setup w h) @
                        [EvLog Info ''Wait till the dev pod is available'' [],
                         EvWaitAndGetPod (Clientset t) (Application t) (Inr pod)]"
      by simp
  qed
  show ?thesis using c4 c5 c6 c7 c8 c9 by (simp add: CreateTypeImage_def)
qed

lemma demo_parseManifest: "fst (parseManifest demo_world_manifest []) = Done demo_manifest"
  by (simp add: parseManifest_result demo_world_manifest_def demo_world_def Getwd_current_def)

lemma demo_SetupAndWaitForPod:
  "\<exists>tr. SetupAndWaitForPod demo_world_manifest [] =
     Some (Done (\<lparr> Application = demo_manifest\<lparr> Namespace := ''myproject'' \<rparr>,
                   KubeConfig = \<lparr> Config = ''/home/dev/.kube/config'', MasterURL = [] \<rparr>,
                   RestConfig = Some (RestConfigRef 0), Clientset = Some (ClientsetRef 0) \<rparr>,
                 Some (PodRef 0)), tr)"
  using demo_Setup
  by (cases "Setup demo_world_manifest []")
     (simp add: SetupAndWaitForPod_def Let_def demo_world_manifest_def demo_world_def)

theorem C7_image_immutable_witness:
  "fst (CreateImageStreamTemplate demo_world (Some (RestConfigRef 0)) demo_manifest
          demo_images []) =
     Done \<lparr> appConfig = demo_manifest, images = demo_images,
            appCfg = demo_manifest\<lparr> Image := demo_images ! 1 \<rparr> \<rparr>
   \<and> rendered_images (appended [] (CreateImageStreamTemplate demo_world (Some (RestConfigRef 0))
        demo_manifest demo_images [])) = demo_images
   \<and> Image.Name (demo_images ! 1) = ''copy-supervisord''
   \<and> Repo (demo_images ! 1) = ''quay.io/snowdrop/supervisord''
   \<and> AnnotationCmds (demo_images ! 1) = False
   \<and> fst (finishSetupAndSetApplicationName demo_world (zeroTool\<lparr> Application := demo_manifest \<rparr>) []) =
       Done (zeroTool\<lparr> Application := demo_manifest \<rparr>)
   \<and> fst (parseManifest demo_world_manifest []) = Done demo_manifest
   \<and> fst (Setup demo_world_manifest []) =
       Done \<lparr> Application = demo_manifest\<lparr> Namespace := ''myproject'' \<rparr>,
              KubeConfig = \<lparr> Config = ''/home/dev/.kube/config'', MasterURL = [] \<rparr>,
              RestConfig = Some (RestConfigRef 0), Clientset = Some (ClientsetRef 0) \<rparr>
   \<and> Image demo_manifest =
       \<lparr> Image.Name = ''dev-s2i'', Repo = ''quay.io/snowdrop/spring-boot-s2i'',
         AnnotationCmds = True \<rparr>
   \<and> set (map Image (provisioned_apps (appended [] (Setup demo_world_manifest []))))
       \<subseteq> {Image demo_manifest}
   \<and> (\<exists>tr. SetupAndWaitForPod demo_world_manifest [] =
          Some (Done (\<lparr> Application = demo_manifest\<lparr> Namespace := ''myproject'' \<rparr>,
                        KubeConfig = \<lparr> Config = ''/home/dev/.kube/config'', MasterURL = [] \<rparr>,
                        RestConfig = Some (RestConfigRef 0), Clientset = Some (ClientsetRef 0) \<rparr>,
                      Some (PodRef 0)), tr))"
proof -
  have d: "fst (CreateImageStreamTemplate demo_world (Some (RestConfigRef 0)) demo_manifest
          demo_images []) =
     Done \<lparr> appConfig = demo_manifest, images = demo_images,
            appCfg = demo_manifest\<lparr> Image := demo_images ! 1 \<rparr> \<rparr>"
    by (simp add: demo_first_run)
  have r: "rendered_images (appended [] (CreateImageStreamTemplate demo_world
        (Some (RestConfigRef 0)) demo_manifest demo_images [])) = demo_images"
    by (simp add: demo_first_run appended_def)
       (simp add: demo_trace_def rendered_images_def demo_images_def)
  have i: "demo_images ! 1 = CreateTypeImage ''copy-supervisord'' ''quay.io/snowdrop/supervisord'' False"
    by (simp add: demo_images_def)
  have f: "fst (finishSetupAndSetApplicationName demo_world
                  (zeroTool\<lparr> Application := demo_manifest \<rparr>) []) =
       Done (zeroTool\<lparr> Application := demo_manifest \<rparr>)"
    by (simp add: finishSetupAndSetApplicationName_def resolveApplicationName_def provision_def
      bind_simps Let_def demo_world_def demo_manifest_def)
  have g: "Image demo_manifest =
       \<lparr> Image.Name = ''dev-s2i'', Repo = ''quay.io/snowdrop/spring-boot-s2i'',
         AnnotationCmds = True \<rparr>"
    by (simp add: demo_manifest_def CreateTypeImage_def)
  show ?thesis
    using d r i f g demo_parseManifest demo_Setup demo_SetupAndWaitForPod
      C7_image_immutable [of "''copy-supervisord''" "''quay.io/snowdrop/supervisord''" False
        "[]" demo_world "Some (RestConfigRef 0)" demo_manifest demo_images
        "zeroTool\<lparr> Application := demo_manifest \<rparr>"]
      C7_image_immutable [of "''copy-supervisord''" "''quay.io/snowdrop/supervisord''" False
        "[]" demo_world_manifest "Some (RestConfigRef 0)" demo_manifest demo_images zeroTool]
    by simp
qed

end
